theory Spec2Isabelle
  imports Main
begin

section \<open>The DOM as the widget reads it\<close>

text \<open>
  The infinite-scroll widget exists in two variants in the repository: the first keeps its
  runtime state in plain local variables (\<^verbatim>\<open>src/IS.tsx\<close>), the second keeps it in
  \<^verbatim>\<open>useRef\<close> cells (the other widget source). Definitions translated from the first
  variant carry the prefix \<open>IS_\<close>; definitions of the second variant and definitions that
  are the same in both carry the source's own names.

  Elements are addressed by references into a store, so that the \<^verbatim>\<open>offsetParent\<close> and
  \<^verbatim>\<open>parentNode\<close> links of the DOM are links of the model, and a chain of links may be
  cyclic or endless in the model exactly as a pointer structure may be. \<open>None\<close> is
  JavaScript's \<^verbatim>\<open>null\<close>. Numbers (pixel quantities, page numbers, wheel deltas) are
  integers with exact arithmetic, as JavaScript's numbers are on integers of that size.
\<close>

type_synonym ref = nat

record element =
  offsetTop :: int
  offsetParent :: "ref option"
  offsetHeight :: int
  scrollHeight :: int
  scrollTop :: int
  clientHeight :: int
  parentNode :: "ref option"

text \<open>
  The geometry is an input of every handler: the browser lays the page out between events.
  \<open>pageYOffset\<close> is \<open>None\<close> where \<^verbatim>\<open>window.pageYOffset\<close> is \<^verbatim>\<open>undefined\<close>;
  \<open>docScrollTop\<close> is the \<^verbatim>\<open>scrollTop\<close> of the document element;
  \<open>passiveSupported\<close> is what the feature probe \<^verbatim>\<open>isPassiveSupported()\<close> returns;
  \<open>elementScrollTo\<close> says whether elements have a \<^verbatim>\<open>scrollTo\<close> method (the window
  always has one).
\<close>

record dom =
  elements :: "ref \<Rightarrow> element"
  pageYOffset :: "int option"
  docScrollTop :: int
  innerHeight :: int
  passiveSupported :: bool
  elementScrollTo :: bool

datatype target = Window | Elem ref

datatype evtype = Mousewheel | Scroll | Resize

datatype error = TypeError

text \<open>
  A JavaScript number that may be \<^verbatim>\<open>NaN\<close> (or \<^verbatim>\<open>undefined\<close>, which compares like
  \<^verbatim>\<open>NaN\<close>): reading \<^verbatim>\<open>scrollTop\<close> from the window object yields it.
\<close>

datatype number = NaN | Num int

text \<open>
  The configuration. \<open>loadMore\<close> is the test \<^verbatim>\<open>typeof loadMore === 'function'\<close>;
  \<open>getScrollParent\<close> is \<open>None\<close> when no override is supplied and \<open>Some r\<close> when the
  override returns \<open>r\<close> (itself possibly \<^verbatim>\<open>null\<close>). \<open>'e\<close> is the type of rendered
  content.
\<close>

record 'e props =
  hasMore :: bool
  initialLoad :: bool
  pageStart :: int
  threshold :: int
  useWindow :: bool
  isReverse :: bool
  useCapture :: bool
  loader :: "'e option"
  children :: 'e
  loadMore :: bool
  getScrollParent :: "ref option option"


section \<open>Geometry helpers (both variants)\<close>

text \<open>
  \<^verbatim>\<open>calculateTopPosition\<close> recurses along \<^verbatim>\<open>offsetParent\<close> with no bound on the depth.
  The result \<open>None\<close> means that the recursion does not return.
\<close>

partial_function (option) calculateTopPosition :: "(ref \<Rightarrow> element) \<Rightarrow> ref option \<Rightarrow> int option" where
  "calculateTopPosition es el =
     (case el of
        None \<Rightarrow> Some 0
      | Some r \<Rightarrow>
          Option.bind (calculateTopPosition es (offsetParent (es r)))
            (\<lambda>t. Some (offsetTop (es r) + t)))"

declare calculateTopPosition.simps [code]

definition calculateOffset :: "dom \<Rightarrow> ref option \<Rightarrow> int \<Rightarrow> int option" where
  "calculateOffset d el st =
     (case el of
        None \<Rightarrow> Some 0
      | Some r \<Rightarrow>
          map_option (\<lambda>t. t + (offsetHeight (elements d r) - st - innerHeight d))
            (calculateTopPosition (elements d) (Some r)))"

definition getParentElement :: "'e props \<Rightarrow> dom \<Rightarrow> ref option \<Rightarrow> ref option" where
  "getParentElement p d el =
     (let scrollParent = (case getScrollParent p of None \<Rightarrow> None | Some r \<Rightarrow> r) in
      if scrollParent \<noteq> None then scrollParent
      else (case el of None \<Rightarrow> None | Some r \<Rightarrow> parentNode (elements d r)))"

text \<open>
  The \<^verbatim>\<open>offsetParent\<close> chain of an element, as the list of the references visited until
  \<^verbatim>\<open>null\<close> is reached.
\<close>

fun offsetChain :: "(ref \<Rightarrow> element) \<Rightarrow> ref option \<Rightarrow> ref list \<Rightarrow> bool" where
  "offsetChain es el [] = (el = None)"
| "offsetChain es el (r # rs) = (el = Some r \<and> offsetChain es (offsetParent (es r)) rs)"


text \<open>
  The helpers as JavaScript calls them: with an argument that is an element, \<^verbatim>\<open>null\<close>, or
  absent (\<^verbatim>\<open>undefined\<close>). The parameter type \<^verbatim>\<open>HTMLElement | null\<close> excludes the absent
  argument, and the store holds HTML elements only, whose \<^verbatim>\<open>offsetParent\<close> is an element
  or \<^verbatim>\<open>null\<close>; so on an element the recursion stays within the functions above. The two
  variants guard differently. The variant with refs tests \<^verbatim>\<open>el === null\<close>, which lets an
  absent argument through to \<^verbatim>\<open>el.offsetTop\<close>, a \<^verbatim>\<open>TypeError\<close>; in
  \<^verbatim>\<open>calculateOffset\<close> the error arises in the call \<^verbatim>\<open>calculateTopPosition(el)\<close>. The
  variant with local variables tests \<^verbatim>\<open>!el\<close>, which holds of \<^verbatim>\<open>null\<close> and of the absent
  argument alike.
\<close>

datatype argument = Undefined | Null | Element ref

fun toRef :: "argument \<Rightarrow> ref option" where
  "toRef (Element r) = Some r"
| "toRef Null = None"
| "toRef Undefined = None"

definition calculateTopPosition_arg :: "(ref \<Rightarrow> element) \<Rightarrow> argument \<Rightarrow> (error + int) option" where
  "calculateTopPosition_arg es el =
     (case el of
        Null \<Rightarrow> Some (Inr 0)
      | Undefined \<Rightarrow> Some (Inl TypeError)
      | Element r \<Rightarrow> map_option Inr (calculateTopPosition es (Some r)))"

definition calculateOffset_arg :: "dom \<Rightarrow> argument \<Rightarrow> int \<Rightarrow> (error + int) option" where
  "calculateOffset_arg d el st =
     (case el of
        Null \<Rightarrow> Some (Inr 0)
      | Undefined \<Rightarrow> calculateTopPosition_arg (elements d) Undefined
      | Element r \<Rightarrow>
          map_option (map_sum id (\<lambda>t. t + (offsetHeight (elements d r) - st - innerHeight d)))
            (calculateTopPosition_arg (elements d) (Element r)))"

definition IS_calculateTopPosition_arg :: "(ref \<Rightarrow> element) \<Rightarrow> argument \<Rightarrow> (error + int) option" where
  "IS_calculateTopPosition_arg es el =
     (case el of
        Element r \<Rightarrow> map_option Inr (calculateTopPosition es (Some r))
      | _ \<Rightarrow> Some (Inr 0))"

definition IS_calculateOffset_arg :: "dom \<Rightarrow> argument \<Rightarrow> int \<Rightarrow> (error + int) option" where
  "IS_calculateOffset_arg d el st =
     (case el of
        Element r \<Rightarrow>
          map_option (map_sum id (\<lambda>t. t + (offsetHeight (elements d r) - st - innerHeight d)))
            (IS_calculateTopPosition_arg (elements d) (Element r))
      | _ \<Rightarrow> Some (Inr 0))"


section \<open>Parts of the widget that are the same in both variants\<close>

text \<open>
  The wheel listener. \<open>preventDefaultCalls\<close> counts the calls of
  \<^verbatim>\<open>e.preventDefault()\<close> on the event.
\<close>

record wheelEvent =
  deltaY :: int
  preventDefaultCalls :: nat

definition mousewheelListener :: "dom \<Rightarrow> wheelEvent \<Rightarrow> wheelEvent" where
  "mousewheelListener d e =
     (if deltaY e = 1 \<and> \<not> passiveSupported d
      then e\<lparr>preventDefaultCalls := preventDefaultCalls e + 1\<rparr>
      else e)"

text \<open>The children handed to \<^verbatim>\<open>React.createElement\<close>.\<close>

definition childrenArray :: "'e props \<Rightarrow> 'e list" where
  "childrenArray p =
     (if hasMore p then
        (case loader p of
           Some l \<Rightarrow> if isReverse p then [l, children p] else [children p, l]
         | None \<Rightarrow> [children p])
      else [children p])"

text \<open>
  What the widget does to the outside world is recorded in its state: the set of
  registered listeners (a listener is identified by its target and event type), the
  arguments of the calls of \<^verbatim>\<open>loadMore\<close> in order, and the scroll positions written,
  either by \<^verbatim>\<open>scrollTo(x, y)\<close> or by assignment to \<^verbatim>\<open>scrollTop\<close>.
\<close>

datatype scrollWrite = ScrollTo int int | SetScrollTop int

fun requestedTop :: "scrollWrite \<Rightarrow> int" where
  "requestedTop (ScrollTo x y) = y"
| "requestedTop (SetScrollTop y) = y"

definition allListeners :: "target \<Rightarrow> (target \<times> evtype) set" where
  "allListeners c = {(c, Mousewheel), (c, Scroll), (c, Resize)}"


section \<open>The variant with state in refs\<close>

record beforeSizeType =
  before_scrollHeight :: int
  before_scrollTop :: int

record widget =
  scrollComponentRef :: "ref option"
  isLoadMoreRef :: bool
  pageLoadedRef :: int
  beforeSizeRef :: beforeSizeType
  scrollContainerRef :: target
  listeners :: "(target \<times> evtype) set"
  loadMoreCalls :: "int list"
  scrollWrites :: "(target \<times> scrollWrite) list"

text \<open>
  The state at the first render: the refs hold their initial values, and React has stored
  the rendered element in \<^verbatim>\<open>scrollComponentRef\<close> before any effect runs.
\<close>

definition initialWidget :: "ref option \<Rightarrow> widget" where
  "initialWidget el =
     \<lparr>scrollComponentRef = el, isLoadMoreRef = False, pageLoadedRef = 0,
      beforeSizeRef = \<lparr>before_scrollHeight = 0, before_scrollTop = 0\<rparr>,
      scrollContainerRef = Window, listeners = {}, loadMoreCalls = [], scrollWrites = []\<rparr>"

text \<open>
  The first half of \<^verbatim>\<open>scrollListener\<close>: the computation of \<^verbatim>\<open>offset\<close>. The scroll
  container is read both as a window and as an element; the property that the object does
  not have is \<^verbatim>\<open>undefined\<close>. Reading \<^verbatim>\<open>el.scrollHeight\<close> from a null element raises
  a \<^verbatim>\<open>TypeError\<close>.
\<close>

definition scrollListener_offset :: "'e props \<Rightarrow> dom \<Rightarrow> widget \<Rightarrow> (error + number) option" where
  "scrollListener_offset p d w =
     (let el = scrollComponentRef w; container = scrollContainerRef w in
      if useWindow p then
        (let st = (case container of
                     Window \<Rightarrow> (case pageYOffset d of Some y \<Rightarrow> y | None \<Rightarrow> docScrollTop d)
                   | Elem r \<Rightarrow> docScrollTop d) in
         if isReverse p then Some (Inr (Num st))
         else map_option (\<lambda>v. Inr (Num v)) (calculateOffset d el st))
      else if isReverse p then
        (case container of
           Window \<Rightarrow> Some (Inr NaN)
         | Elem r \<Rightarrow> Some (Inr (Num (scrollTop (elements d r)))))
      else
        (case el of
           None \<Rightarrow> Some (Inl TypeError)
         | Some e \<Rightarrow>
             (case container of
                Window \<Rightarrow> Some (Inr NaN)
              | Elem r \<Rightarrow>
                  Some (Inr (Num (scrollHeight (elements d e) - scrollTop (elements d r)
                                    - clientHeight (elements d r)))))))"

text \<open>
  The second half of \<^verbatim>\<open>scrollListener\<close>: what happens once the condition holds, and
  the listener as a whole. \<^verbatim>\<open>NaN\<close> compares false with every threshold.
\<close>

definition scrollListener_trigger :: "'e props \<Rightarrow> dom \<Rightarrow> ref \<Rightarrow> int \<Rightarrow> widget \<Rightarrow> widget" where
  "scrollListener_trigger p d e offset w =
     (let w1 = (if isReverse p
                then w\<lparr>beforeSizeRef := \<lparr>before_scrollHeight = scrollHeight (elements d e),
                                         before_scrollTop = offset\<rparr>\<rparr>
                else w)
      in if loadMore p
         then w1\<lparr>pageLoadedRef := pageLoadedRef w1 + 1,
                 loadMoreCalls := loadMoreCalls w1 @ [pageLoadedRef w1 + 1],
                 isLoadMoreRef := True\<rparr>
         else w1)"

definition scrollListener :: "'e props \<Rightarrow> dom \<Rightarrow> widget \<Rightarrow> (error + widget) option" where
  "scrollListener p d w =
     (case scrollListener_offset p d w of
        None \<Rightarrow> None
      | Some (Inl err) \<Rightarrow> Some (Inl err)
      | Some (Inr NaN) \<Rightarrow> Some (Inr w)
      | Some (Inr (Num offset)) \<Rightarrow>
          (case scrollComponentRef w of
             None \<Rightarrow> Some (Inr w)
           | Some e \<Rightarrow>
               if offset \<le> threshold p \<and> offsetParent (elements d e) \<noteq> None
               then Some (Inr (scrollListener_trigger p d e offset w))
               else Some (Inr w)))"

definition attachScrollListener :: "widget \<Rightarrow> widget" where
  "attachScrollListener w = w\<lparr>listeners := listeners w \<union> allListeners (scrollContainerRef w)\<rparr>"

definition detachScrollListener :: "widget \<Rightarrow> widget" where
  "detachScrollListener w = w\<lparr>listeners := listeners w - allListeners (scrollContainerRef w)\<rparr>"

text \<open>The effect that depends on \<^verbatim>\<open>pageStart\<close>, and its cleanup.\<close>

definition pageStartEffect :: "'e props \<Rightarrow> dom \<Rightarrow> widget \<Rightarrow> (error + widget) option" where
  "pageStartEffect p d w =
     (let w1 = w\<lparr>pageLoadedRef := (if pageStart p = - 1 then 0 else pageStart p)\<rparr>;
          w2 = (case getParentElement p d (scrollComponentRef w1) of
                  None \<Rightarrow> w1
                | Some parentElement \<Rightarrow>
                    if \<not> useWindow p then w1\<lparr>scrollContainerRef := Elem parentElement\<rparr> else w1);
          w3 = attachScrollListener w2
      in if initialLoad p then scrollListener p d w3 else Some (Inr w3))"

definition pageStartCleanup :: "widget \<Rightarrow> widget" where
  "pageStartCleanup w = detachScrollListener w"

text \<open>The effect that runs after every render: the compensation of reverse mode.\<close>

definition renderEffect :: "'e props \<Rightarrow> dom \<Rightarrow> widget \<Rightarrow> error + widget" where
  "renderEffect p d w =
     (if isReverse p \<and> isLoadMoreRef w then
        (case scrollComponentRef w of
           None \<Rightarrow> Inl TypeError
         | Some e \<Rightarrow>
             (let y = scrollHeight (elements d e) - before_scrollHeight (beforeSizeRef w)
                        + before_scrollTop (beforeSizeRef w);
                  c = scrollContainerRef w;
                  hasScrollTo = (case c of Window \<Rightarrow> True | Elem r \<Rightarrow> elementScrollTo d)
              in Inr (w\<lparr>scrollWrites :=
                           scrollWrites w @ [(c, if hasScrollTo then ScrollTo 0 y else SetScrollTop y)],
                         isLoadMoreRef := False\<rparr>)))
      else Inr w)"

text \<open>Mounting runs the effects in the order of their declaration.\<close>

definition mount :: "'e props \<Rightarrow> dom \<Rightarrow> widget \<Rightarrow> (error + widget) option" where
  "mount p d w =
     (case pageStartEffect p d w of
        None \<Rightarrow> None
      | Some (Inl err) \<Rightarrow> Some (Inl err)
      | Some (Inr w') \<Rightarrow> Some (renderEffect p d w'))"

text \<open>
  What can happen to a mounted widget between two runs of the \<^verbatim>\<open>pageStart\<close> effect: the
  browser dispatches an event to the scroll container, which runs the listener registered
  for it, if any; or React has rendered and runs the effect without dependencies.
\<close>

datatype 'e action = Event evtype "'e props" dom | AfterRender "'e props" dom

fun step :: "'e action \<Rightarrow> widget \<Rightarrow> (error + widget) option" where
  "step (Event ev p d) w =
     (if (scrollContainerRef w, ev) \<in> listeners w \<and> ev \<noteq> Mousewheel
      then scrollListener p d w else Some (Inr w))"
| "step (AfterRender p d) w = Some (renderEffect p d w)"

fun run :: "'e action list \<Rightarrow> widget \<Rightarrow> (error + widget) option" where
  "run [] w = Some (Inr w)"
| "run (a # as) w =
     (case step a w of
        None \<Rightarrow> None
      | Some (Inl err) \<Rightarrow> Some (Inl err)
      | Some (Inr w') \<Rightarrow> run as w')"


section \<open>The variant with state in local variables\<close>

text \<open>
  The state is that of the variables of one render: \<^verbatim>\<open>isLoadMore\<close>,
  \<^verbatim>\<open>beforeScrollHeight\<close>, \<^verbatim>\<open>beforeScrollTop\<close> and \<^verbatim>\<open>pageLoaded\<close>. Here the scroll
  parent is looked up at every call and may be null, and the listener compares the offset
  with the threshold strictly; a trigger first removes the scroll and resize listeners and
  then reads the geometry of the scroll parent, which raises a \<^verbatim>\<open>TypeError\<close> on null.
  \<^verbatim>\<open>attachScrollListener\<close> returns at once unless \<^verbatim>\<open>hasMore\<close> holds and there is a
  scroll parent, and it runs the initial check itself. The effect after every render only
  attaches the listeners; nothing in this variant writes a scroll position.
\<close>

record IS_widget =
  IS_scrollComponentRef :: "ref option"
  isLoadMore :: bool
  beforeScrollHeight :: int
  beforeScrollTop :: int
  pageLoaded :: int
  IS_listeners :: "(target \<times> evtype) set"
  IS_loadMoreCalls :: "int list"
  IS_scrollWrites :: "(target \<times> scrollWrite) list"

definition IS_initialWidget :: "ref option \<Rightarrow> IS_widget" where
  "IS_initialWidget el =
     \<lparr>IS_scrollComponentRef = el, isLoadMore = False, beforeScrollHeight = 0,
      beforeScrollTop = 0, pageLoaded = 0, IS_listeners = {}, IS_loadMoreCalls = [],
      IS_scrollWrites = []\<rparr>"

definition IS_scrollEl :: "'e props \<Rightarrow> ref option \<Rightarrow> target" where
  "IS_scrollEl p parentElement =
     (case parentElement of
        None \<Rightarrow> Window
      | Some r \<Rightarrow> if \<not> useWindow p then Elem r else Window)"

definition IS_detachScrollListener :: "'e props \<Rightarrow> dom \<Rightarrow> IS_widget \<Rightarrow> IS_widget" where
  "IS_detachScrollListener p d w =
     (let scrollEl = IS_scrollEl p (getParentElement p d (IS_scrollComponentRef w))
      in w\<lparr>IS_listeners := IS_listeners w - {(scrollEl, Scroll), (scrollEl, Resize)}\<rparr>)"

definition IS_detachMousewheelListener :: "'e props \<Rightarrow> dom \<Rightarrow> IS_widget \<Rightarrow> error + IS_widget" where
  "IS_detachMousewheelListener p d w =
     (if useWindow p then Inr (w\<lparr>IS_listeners := IS_listeners w - {(Window, Mousewheel)}\<rparr>)
      else
        (case IS_scrollComponentRef w of
           None \<Rightarrow> Inl TypeError
         | Some e \<Rightarrow>
             (let scrollEl = (case parentNode (elements d e) of None \<Rightarrow> Window | Some r \<Rightarrow> Elem r)
              in Inr (w\<lparr>IS_listeners := IS_listeners w - {(scrollEl, Mousewheel)}\<rparr>))))"

definition IS_scrollListener_offset :: "'e props \<Rightarrow> dom \<Rightarrow> IS_widget \<Rightarrow> (error + int) option" where
  "IS_scrollListener_offset p d w =
     (let el = IS_scrollComponentRef w; parent = getParentElement p d el in
      if useWindow p then
        (let st = (case pageYOffset d of Some y \<Rightarrow> y | None \<Rightarrow> docScrollTop d) in
         if isReverse p then Some (Inr st)
         else map_option Inr (calculateOffset d el st))
      else
        (case parent of
           Some r \<Rightarrow>
             if isReverse p then Some (Inr (scrollTop (elements d r)))
             else
               (case el of
                  None \<Rightarrow> Some (Inl TypeError)
                | Some e \<Rightarrow>
                    Some (Inr (scrollHeight (elements d e) - scrollTop (elements d r)
                                 - clientHeight (elements d r))))
         | None \<Rightarrow> Some (Inl TypeError)))"

definition IS_scrollListener_trigger :: "'e props \<Rightarrow> dom \<Rightarrow> IS_widget \<Rightarrow> error + IS_widget" where
  "IS_scrollListener_trigger p d w =
     (let w1 = IS_detachScrollListener p d w in
      case getParentElement p d (IS_scrollComponentRef w) of
        None \<Rightarrow> Inl TypeError
      | Some r \<Rightarrow>
          (let w2 = w1\<lparr>beforeScrollHeight := scrollHeight (elements d r),
                       beforeScrollTop := scrollTop (elements d r)\<rparr>
           in if loadMore p
              then Inr (w2\<lparr>pageLoaded := pageLoaded w2 + 1,
                           IS_loadMoreCalls := IS_loadMoreCalls w2 @ [pageLoaded w2 + 1],
                           isLoadMore := True\<rparr>)
              else Inr w2))"

definition IS_scrollListener :: "'e props \<Rightarrow> dom \<Rightarrow> IS_widget \<Rightarrow> (error + IS_widget) option" where
  "IS_scrollListener p d w =
     (case IS_scrollListener_offset p d w of
        None \<Rightarrow> None
      | Some (Inl err) \<Rightarrow> Some (Inl err)
      | Some (Inr offset) \<Rightarrow>
          (case IS_scrollComponentRef w of
             None \<Rightarrow> Some (Inr w)
           | Some e \<Rightarrow>
               if offset < threshold p \<and> offsetParent (elements d e) \<noteq> None
               then Some (IS_scrollListener_trigger p d w)
               else Some (Inr w)))"

definition IS_attachScrollListener :: "'e props \<Rightarrow> dom \<Rightarrow> IS_widget \<Rightarrow> (error + IS_widget) option" where
  "IS_attachScrollListener p d w =
     (case getParentElement p d (IS_scrollComponentRef w) of
        None \<Rightarrow> Some (Inr w)
      | Some parentElement \<Rightarrow>
          if \<not> hasMore p then Some (Inr w)
          else
            (let scrollEl = IS_scrollEl p (Some parentElement);
                 w1 = w\<lparr>IS_listeners := IS_listeners w \<union> allListeners scrollEl\<rparr>
             in if initialLoad p then IS_scrollListener p d w1 else Some (Inr w1)))"

definition IS_pageStartEffect :: "'e props \<Rightarrow> dom \<Rightarrow> IS_widget \<Rightarrow> (error + IS_widget) option" where
  "IS_pageStartEffect p d w =
     IS_attachScrollListener p d (w\<lparr>pageLoaded := (if pageStart p = - 1 then 0 else pageStart p)\<rparr>)"

definition IS_renderEffect :: "'e props \<Rightarrow> dom \<Rightarrow> IS_widget \<Rightarrow> (error + IS_widget) option" where
  "IS_renderEffect p d w = IS_attachScrollListener p d w"

definition IS_cleanup :: "'e props \<Rightarrow> dom \<Rightarrow> IS_widget \<Rightarrow> error + IS_widget" where
  "IS_cleanup p d w = IS_detachMousewheelListener p d (IS_detachScrollListener p d w)"

definition IS_mount :: "'e props \<Rightarrow> dom \<Rightarrow> IS_widget \<Rightarrow> (error + IS_widget) option" where
  "IS_mount p d w =
     (case IS_pageStartEffect p d w of
        None \<Rightarrow> None
      | Some (Inl err) \<Rightarrow> Some (Inl err)
      | Some (Inr w') \<Rightarrow> IS_renderEffect p d w')"


text \<open>
  The variables of this variant are declared in the body of the component function, so
  every render declares them afresh, with their initial values, and the listeners that the
  effect of that render registers read and write the fresh variables.

  A re-render with \<^verbatim>\<open>pageStart\<close> unchanged: the body runs; React runs the cleanup of the
  dependency-free effect of the previous render (with the props \<open>p\<close> of that render), which
  removes that render's listeners, and then the dependency-free effect of the new render
  (with the new props \<open>p'\<close>). The \<^verbatim>\<open>pageStart\<close> effect does not run. The state holds the
  variables of the render whose listeners are registered.
\<close>

definition IS_declarations :: "IS_widget \<Rightarrow> IS_widget" where
  "IS_declarations u =
     u\<lparr>isLoadMore := False, beforeScrollHeight := 0, beforeScrollTop := 0, pageLoaded := 0\<rparr>"

definition IS_rerender :: "'e props \<Rightarrow> 'e props \<Rightarrow> dom \<Rightarrow> IS_widget \<Rightarrow> (error + IS_widget) option" where
  "IS_rerender p p' d u =
     (case IS_cleanup p d u of
        Inl err \<Rightarrow> Some (Inl err)
      | Inr u1 \<Rightarrow> IS_renderEffect p' d (IS_declarations u1))"


section \<open>Example pages\<close>

text \<open>
  A page with three elements: the widget's element 2 inside the scrollable element 3
  inside the body 4. Every other reference is a detached element. The parameters are the
  \<^verbatim>\<open>offsetHeight\<close> and the \<^verbatim>\<open>scrollHeight\<close> of the widget's element; the browser
  has the vertical scroll position of the window as a third.
\<close>

definition detached :: element where
  "detached = \<lparr>offsetTop = 0, offsetParent = None, offsetHeight = 0, scrollHeight = 0,
                scrollTop = 0, clientHeight = 0, parentNode = None\<rparr>"

definition page :: "int \<Rightarrow> int \<Rightarrow> ref \<Rightarrow> element" where
  "page h s = (\<lambda>r. detached)
     (2 := \<lparr>offsetTop = 40, offsetParent = Some 3, offsetHeight = h, scrollHeight = s,
            scrollTop = 0, clientHeight = h, parentNode = Some 3\<rparr>,
      3 := \<lparr>offsetTop = 60, offsetParent = Some 4, offsetHeight = 400, scrollHeight = 1200,
            scrollTop = 500, clientHeight = 400, parentNode = Some 4\<rparr>,
      4 := \<lparr>offsetTop = 0, offsetParent = None, offsetHeight = 900, scrollHeight = 900,
            scrollTop = 0, clientHeight = 900, parentNode = None\<rparr>)"

definition browser :: "int \<Rightarrow> int \<Rightarrow> int \<Rightarrow> dom" where
  "browser h s y = \<lparr>elements = page h s, pageYOffset = Some y, docScrollTop = y, innerHeight = 800,
                  passiveSupported = False, elementScrollTo = True\<rparr>"

definition config :: "unit props" where
  "config = \<lparr>hasMore = True, initialLoad = True, pageStart = 0, threshold = 250,
             useWindow = True, isReverse = False, useCapture = False, loader = Some (),
             children = (), loadMore = True, getScrollParent = None\<rparr>"


text \<open>
  Further configurations: reverse mode without and with the initial load, forward mode
  without the initial load, and scrolling inside the parent element instead of the window. \<open>attached\<close> is a mounted widget of the variant
  with refs, listening on the window; \<open>attachedTo3\<close> one listening on element 3.
\<close>

definition reverseConfig :: "unit props" where
  "reverseConfig = config\<lparr>isReverse := True, initialLoad := False\<rparr>"

definition reverseLoadConfig :: "unit props" where
  "reverseLoadConfig = config\<lparr>isReverse := True\<rparr>"

definition scrollOnlyConfig :: "unit props" where
  "scrollOnlyConfig = config\<lparr>initialLoad := False\<rparr>"

definition containerConfig :: "unit props" where
  "containerConfig = config\<lparr>useWindow := False, initialLoad := False\<rparr>"

definition attached :: widget where
  "attached = (initialWidget (Some 2))\<lparr>listeners := allListeners Window\<rparr>"

definition attachedTo3 :: widget where
  "attachedTo3 = (initialWidget (Some 2))\<lparr>scrollContainerRef := Elem 3,
     listeners := allListeners (Elem 3)\<rparr>"

text \<open>A store in which element 2 is its own \<^verbatim>\<open>offsetParent\<close>.\<close>

definition loopPage :: "ref \<Rightarrow> element" where
  "loopPage = (\<lambda>r. detached)(2 := detached\<lparr>offsetTop := 40, offsetParent := Some 2\<rparr>)"


section \<open>Properties of the geometry helpers\<close>

lemma calculateTopPosition_null: "calculateTopPosition es None = Some 0"
  by (subst calculateTopPosition.simps) simp

lemma calculateTopPosition_elem:
  "calculateTopPosition es (Some r) =
     Option.bind (calculateTopPosition es (offsetParent (es r))) (\<lambda>t. Some (offsetTop (es r) + t))"
  by (subst calculateTopPosition.simps) simp

lemma calculateTopPosition_chain:
  "offsetChain es el rs \<Longrightarrow> calculateTopPosition es el = Some (\<Sum>r\<leftarrow>rs. offsetTop (es r))"
proof (induction rs arbitrary: el)
  case Nil
  then show ?case by (simp add: calculateTopPosition_null)
next
  case (Cons r rs)
  then have el: "el = Some r" and tl: "offsetChain es (offsetParent (es r)) rs"
    by simp_all
  from Cons.IH [OF tl] show ?case
    by (simp add: el calculateTopPosition_elem)
qed

lemma calculateTopPosition_returns_chain:
  assumes "calculateTopPosition es el = Some t"
  shows "\<exists>rs. offsetChain es el rs"
proof (rule calculateTopPosition.raw_induct
    [where P = "\<lambda>es el t. \<exists>rs. offsetChain es el rs", OF _ assms])
  fix f :: "(ref \<Rightarrow> element) \<Rightarrow> ref option \<Rightarrow> int option" and es el t
  assume IH: "\<And>es el t. f es el = Some t \<Longrightarrow> \<exists>rs. offsetChain es el rs"
    and step: "(case el of None \<Rightarrow> Some 0
      | Some r \<Rightarrow> Option.bind (f es (offsetParent (es r))) (\<lambda>t. Some (offsetTop (es r) + t))) = Some t"
  show "\<exists>rs. offsetChain es el rs"
  proof (cases el)
    case None
    then have "offsetChain es el []" by simp
    then show ?thesis ..
  next
    case (Some r)
    with step obtain t' where t': "f es (offsetParent (es r)) = Some t'"
      by (auto simp: bind_eq_Some_conv)
    from IH [OF t'] obtain rs where "offsetChain es (offsetParent (es r)) rs" ..
    with Some have "offsetChain es el (r # rs)" by simp
    then show ?thesis ..
  qed
qed

lemma offsetChain_unique:
  "offsetChain es el rs \<Longrightarrow> offsetChain es el rs' \<Longrightarrow> rs = rs'"
proof (induction rs arbitrary: el rs')
  case Nil
  then show ?case by (cases rs') simp_all
next
  case (Cons r rs)
  then show ?case by (cases rs') auto
qed

lemma offsetChain_suffix:
  "offsetChain es el rs \<Longrightarrow> x \<in> set rs \<Longrightarrow>
     \<exists>ys. offsetChain es (Some x) ys \<and> length ys \<le> length rs"
proof (induction rs arbitrary: el)
  case Nil
  then show ?case by simp
next
  case (Cons r rs)
  show ?case
  proof (cases "x = r")
    case True
    with Cons.prems(1) have "offsetChain es (Some x) (r # rs)" by simp
    then show ?thesis by blast
  next
    case False
    with Cons.prems have "x \<in> set rs" and "offsetChain es (offsetParent (es r)) rs"
      by simp_all
    from Cons.IH [OF this(2) this(1)] show ?thesis by auto
  qed
qed

lemma offsetChain_distinct: "offsetChain es el rs \<Longrightarrow> distinct rs"
proof (induction rs arbitrary: el)
  case Nil
  then show ?case by simp
next
  case (Cons r rs)
  then have el: "el = Some r" and tl: "offsetChain es (offsetParent (es r)) rs"
    by simp_all
  have "r \<notin> set rs"
  proof
    assume "r \<in> set rs"
    from offsetChain_suffix [OF tl this] obtain ys
      where ys: "offsetChain es (Some r) ys" and len: "length ys \<le> length rs" by blast
    from Cons.prems el have "offsetChain es (Some r) (r # rs)" by simp
    from offsetChain_unique [OF ys this] len show False by simp
  qed
  with Cons.IH [OF tl] show ?case by simp
qed

subsection \<open>The example pages evaluated\<close>

lemma page_simps:
  "page h s 2 = \<lparr>offsetTop = 40, offsetParent = Some 3, offsetHeight = h, scrollHeight = s,
            scrollTop = 0, clientHeight = h, parentNode = Some 3\<rparr>"
  "page h s 3 = \<lparr>offsetTop = 60, offsetParent = Some 4, offsetHeight = 400, scrollHeight = 1200,
            scrollTop = 500, clientHeight = 400, parentNode = Some 4\<rparr>"
  "page h s 4 = \<lparr>offsetTop = 0, offsetParent = None, offsetHeight = 900, scrollHeight = 900,
            scrollTop = 0, clientHeight = 900, parentNode = None\<rparr>"
  by (simp_all add: page_def)

lemma page_top: "calculateTopPosition (page h s) (Some 2) = Some 100"
  by (simp add: calculateTopPosition_elem calculateTopPosition_null page_simps)

lemma page_chain: "offsetChain (page h s) (Some 2) [2, 3, 4]"
  by (simp add: page_simps)

lemma loopPage_no_chain: "\<not> offsetChain loopPage (Some 2) rs"
  by (induction rs) (simp_all add: loopPage_def)

lemma browser_simps:
  "elements (browser h s y) = page h s" "pageYOffset (browser h s y) = Some y"
  "docScrollTop (browser h s y) = y" "innerHeight (browser h s y) = 800"
  "passiveSupported (browser h s y) = False" "elementScrollTo (browser h s y) = True"
  by (simp_all add: browser_def)

lemma browser_offset: "calculateOffset (browser h s y) (Some 2) st = Some (h - st - 700)"
  by (simp add: calculateOffset_def browser_simps page_top page_simps)

lemma config_simps:
  "hasMore config" "initialLoad config" "pageStart config = 0" "threshold config = 250"
  "useWindow config" "\<not> isReverse config" "loader config = Some ()" "loadMore config"
  "getScrollParent config = None" "children config = ()"
  by (simp_all add: config_def)

lemma window_offset:
  "scrollComponentRef w = Some 2 \<Longrightarrow> scrollContainerRef w = Window \<Longrightarrow> useWindow p \<Longrightarrow>
     \<not> isReverse p \<Longrightarrow>
     scrollListener_offset p (browser h s y) w = Some (Inr (Num (h - y - 700)))"
  by (simp add: scrollListener_offset_def browser_offset browser_simps)

lemma IS_window_offset:
  "IS_scrollComponentRef u = Some 2 \<Longrightarrow> useWindow p \<Longrightarrow> \<not> isReverse p \<Longrightarrow>
     IS_scrollListener_offset p (browser h s y) u = Some (Inr (h - y - 700))"
  by (simp add: IS_scrollListener_offset_def browser_offset browser_simps)

lemma config_offset:
  "scrollListener_offset config (browser h s y) (initialWidget (Some 2))
     = Some (Inr (Num (h - y - 700)))"
  by (simp add: window_offset config_simps initialWidget_def)

lemma IS_config_offset:
  "IS_scrollListener_offset config (browser h s y) (IS_initialWidget (Some 2))
     = Some (Inr (h - y - 700))"
  by (simp add: IS_window_offset config_simps IS_initialWidget_def)

lemma config_parent: "getParentElement config (browser h s y) (Some 2) = Some 3"
  by (simp add: getParentElement_def config_def browser_simps page_simps)


section \<open>The claims\<close>

text \<open>
  Claim C1, as amended. A scroll or resize evaluation whose offset computation returns
  fires the load-more trigger exactly when the offset is a number that meets the threshold
  and the widget's element is set and has a non-null \<^verbatim>\<open>offsetParent\<close>; otherwise the
  evaluation changes nothing. In the variant with refs the offset meets the threshold when
  it is less than or equal to it; in the variant with local variables only when it is
  strictly less. (In the latter the scroll parent is taken to be non-null, as it is for
  every element that has an \<^verbatim>\<open>offsetParent\<close>.) With a \<^verbatim>\<open>loadMore\<close> callback supplied,
  firing is observable as a new call of it.
\<close>

theorem scrollListener_fires_iff:
  "(scrollListener_offset p d w = Some (Inr off) \<longrightarrow>
      (\<exists>w'. scrollListener p d w = Some (Inr w')
         \<and> (loadMore p \<longrightarrow>
              (loadMoreCalls w' \<noteq> loadMoreCalls w \<longleftrightarrow>
                 (\<exists>v e. off = Num v \<and> v \<le> threshold p \<and> scrollComponentRef w = Some e
                    \<and> offsetParent (elements d e) \<noteq> None)))
         \<and> (\<not> (\<exists>v e. off = Num v \<and> v \<le> threshold p \<and> scrollComponentRef w = Some e
                    \<and> offsetParent (elements d e) \<noteq> None) \<longrightarrow> w' = w)))
   \<and> (IS_scrollListener_offset p d u = Some (Inr n)
        \<and> getParentElement p d (IS_scrollComponentRef u) \<noteq> None \<longrightarrow>
      (\<exists>u'. IS_scrollListener p d u = Some (Inr u')
         \<and> (loadMore p \<longrightarrow>
              (IS_loadMoreCalls u' \<noteq> IS_loadMoreCalls u \<longleftrightarrow>
                 (\<exists>e. n < threshold p \<and> IS_scrollComponentRef u = Some e
                    \<and> offsetParent (elements d e) \<noteq> None)))
         \<and> (\<not> (\<exists>e. n < threshold p \<and> IS_scrollComponentRef u = Some e
                    \<and> offsetParent (elements d e) \<noteq> None) \<longrightarrow> u' = u)))"
proof (intro conjI impI)
  assume off: "scrollListener_offset p d w = Some (Inr off)"
  show "\<exists>w'. scrollListener p d w = Some (Inr w')
         \<and> (loadMore p \<longrightarrow>
              (loadMoreCalls w' \<noteq> loadMoreCalls w \<longleftrightarrow>
                 (\<exists>v e. off = Num v \<and> v \<le> threshold p \<and> scrollComponentRef w = Some e
                    \<and> offsetParent (elements d e) \<noteq> None)))
         \<and> (\<not> (\<exists>v e. off = Num v \<and> v \<le> threshold p \<and> scrollComponentRef w = Some e
                    \<and> offsetParent (elements d e) \<noteq> None) \<longrightarrow> w' = w)"
    using off
    by (cases off; cases "scrollComponentRef w")
       (auto simp: scrollListener_def scrollListener_trigger_def)
next
  assume a: "IS_scrollListener_offset p d u = Some (Inr n)
        \<and> getParentElement p d (IS_scrollComponentRef u) \<noteq> None"
  then obtain r where r: "getParentElement p d (IS_scrollComponentRef u) = Some r" by auto
  show "\<exists>u'. IS_scrollListener p d u = Some (Inr u')
         \<and> (loadMore p \<longrightarrow>
              (IS_loadMoreCalls u' \<noteq> IS_loadMoreCalls u \<longleftrightarrow>
                 (\<exists>e. n < threshold p \<and> IS_scrollComponentRef u = Some e
                    \<and> offsetParent (elements d e) \<noteq> None)))
         \<and> (\<not> (\<exists>e. n < threshold p \<and> IS_scrollComponentRef u = Some e
                    \<and> offsetParent (elements d e) \<noteq> None) \<longrightarrow> u' = u)"
    using a r
    by (cases "IS_scrollComponentRef u")
       (auto simp: IS_scrollListener_def IS_scrollListener_trigger_def
          IS_detachScrollListener_def Let_def)
qed

text \<open>
  The amended claim at an offset equal to the threshold: the variant with refs calls
  \<^verbatim>\<open>loadMore\<close>, the variant with local variables leaves its state as it was.
\<close>

theorem scrollListener_fires_iff_witness:
  "scrollListener_offset config (browser 1000 1000 50) (initialWidget (Some 2)) = Some (Inr (Num 250))
   \<and> IS_scrollListener_offset config (browser 1000 1000 50) (IS_initialWidget (Some 2)) = Some (Inr 250)
   \<and> getParentElement config (browser 1000 1000 50) (IS_scrollComponentRef (IS_initialWidget (Some 2)))
       \<noteq> None
   \<and> loadMore config
   \<and> (\<exists>w'. scrollListener config (browser 1000 1000 50) (initialWidget (Some 2)) = Some (Inr w')
         \<and> loadMoreCalls w' \<noteq> loadMoreCalls (initialWidget (Some 2)))
   \<and> IS_scrollListener config (browser 1000 1000 50) (IS_initialWidget (Some 2))
       = Some (Inr (IS_initialWidget (Some 2)))"
proof -
  have h1: "scrollListener_offset config (browser 1000 1000 50) (initialWidget (Some 2))
      = Some (Inr (Num 250))"
    by (simp add: config_offset)
  have h2: "IS_scrollListener_offset config (browser 1000 1000 50) (IS_initialWidget (Some 2))
      = Some (Inr 250)"
    by (simp add: IS_config_offset)
  have h3: "getParentElement config (browser 1000 1000 50)
      (IS_scrollComponentRef (IS_initialWidget (Some 2))) \<noteq> None"
    by (simp add: IS_initialWidget_def config_parent)
  have h4: "loadMore config" "threshold config = 250"
    by (simp_all add: config_def)
  have h5: "scrollComponentRef (initialWidget (Some 2)) = Some 2"
    "offsetParent (elements (browser 1000 1000 50) 2) \<noteq> None"
    by (simp_all add: initialWidget_def browser_simps page_simps)
  from scrollListener_fires_iff [of config "browser 1000 1000 50" "initialWidget (Some 2)" "Num 250"
      "IS_initialWidget (Some 2)" 250] h1 h2 h3 h4 h5
  show ?thesis by auto
qed

text \<open>
  Claim C1 as stated fails in the variant with local variables: with the offset equal to
  the threshold (250) and the element visible, the claim has the trigger fire, and the
  listener returns the state unchanged, without a call of \<^verbatim>\<open>loadMore\<close>.
\<close>

theorem scrollListener_fires_counterexample:
  "IS_scrollListener_offset config (browser 1000 1000 50) (IS_initialWidget (Some 2)) = Some (Inr 250)
   \<and> 250 \<le> threshold config
   \<and> IS_scrollComponentRef (IS_initialWidget (Some 2)) = Some 2
   \<and> offsetParent (elements (browser 1000 1000 50) 2) \<noteq> None
   \<and> loadMore config
   \<and> IS_scrollListener config (browser 1000 1000 50) (IS_initialWidget (Some 2))
       = Some (Inr (IS_initialWidget (Some 2)))"
  by (simp add: IS_config_offset IS_scrollListener_def)
     (simp add: config_def IS_initialWidget_def browser_simps page_simps)

lemma helpers_on_typed_arguments:
  "el \<noteq> Undefined \<Longrightarrow>
     calculateTopPosition_arg es el = map_option Inr (calculateTopPosition es (toRef el))
     \<and> IS_calculateTopPosition_arg es el = map_option Inr (calculateTopPosition es (toRef el))
     \<and> calculateOffset_arg d el st = map_option Inr (calculateOffset d (toRef el) st)
     \<and> IS_calculateOffset_arg d el st = map_option Inr (calculateOffset d (toRef el) st)"
  by (cases el)
     (simp_all add: calculateTopPosition_arg_def IS_calculateTopPosition_arg_def
        calculateOffset_arg_def IS_calculateOffset_arg_def calculateOffset_def
        calculateTopPosition_null option.map_comp comp_def)

text \<open>
  Claim C9, as amended. For a null element argument the geometry helpers
  \<^verbatim>\<open>calculateTopPosition\<close> and \<^verbatim>\<open>calculateOffset\<close> return 0 rather than raising, in both
  variants, whatever the page geometry and the scroll position are. For an absent
  (\<^verbatim>\<open>undefined\<close>) argument, which the parameter type excludes, the helpers of the variant
  with local variables also return 0, and the helpers of the variant with refs raise a
  \<^verbatim>\<open>TypeError\<close>.
\<close>

theorem geometry_helpers_null_or_absent:
  "calculateTopPosition_arg es Null = Some (Inr 0)
   \<and> calculateOffset_arg d Null st = Some (Inr 0)
   \<and> IS_calculateTopPosition_arg es Null = Some (Inr 0)
   \<and> IS_calculateOffset_arg d Null st = Some (Inr 0)
   \<and> calculateTopPosition es None = Some 0
   \<and> calculateOffset d None st = Some 0
   \<and> IS_calculateTopPosition_arg es Undefined = Some (Inr 0)
   \<and> IS_calculateOffset_arg d Undefined st = Some (Inr 0)
   \<and> calculateTopPosition_arg es Undefined = Some (Inl TypeError)
   \<and> calculateOffset_arg d Undefined st = Some (Inl TypeError)"
  by (simp add: calculateTopPosition_arg_def IS_calculateTopPosition_arg_def
      calculateOffset_arg_def IS_calculateOffset_arg_def calculateOffset_def
      calculateTopPosition_null)

text \<open>
  Claim C9 as stated fails in the variant with refs for the absent argument: on the example
  page neither helper returns 0, both raise.
\<close>

theorem geometry_helpers_absent_counterexample:
  "calculateTopPosition_arg (page 1000 1000) Undefined \<noteq> Some (Inr 0)
   \<and> calculateTopPosition_arg (page 1000 1000) Undefined = Some (Inl TypeError)
   \<and> calculateOffset_arg (browser 1000 1000 0) Undefined 0 \<noteq> Some (Inr 0)
   \<and> calculateOffset_arg (browser 1000 1000 0) Undefined 0 = Some (Inl TypeError)"
  by (simp add: calculateTopPosition_arg_def calculateOffset_arg_def)

text \<open>
  Claim C10. For an element whose \<^verbatim>\<open>offsetParent\<close> chain is finite, that is, reaches
  \<^verbatim>\<open>null\<close> after the references \<open>rs\<close> (which are then pairwise distinct),
  \<^verbatim>\<open>calculateTopPosition\<close> returns, and returns the sum of \<^verbatim>\<open>offsetTop\<close> over the chain.
  The recursion has no depth cap: it returns only for such chains, so on a chain that never
  reaches \<^verbatim>\<open>null\<close> it does not return.
\<close>

theorem calculateTopPosition_finite_chain:
  "(offsetChain es el rs \<longrightarrow>
      distinct rs \<and> calculateTopPosition es el = Some (\<Sum>r\<leftarrow>rs. offsetTop (es r)))
   \<and> ((\<exists>t. calculateTopPosition es el = Some t) \<longleftrightarrow> (\<exists>rs. offsetChain es el rs))"
  using calculateTopPosition_chain [of es el] calculateTopPosition_returns_chain [of es el]
    offsetChain_distinct [of es el rs]
  by blast

text \<open>
  The claim on the example page, whose chain is 2, 3, 4 with offsets 40, 60 and 0; and on
  the store in which element 2 is its own \<^verbatim>\<open>offsetParent\<close>, where the recursion does
  not return.
\<close>

theorem calculateTopPosition_finite_chain_witness:
  "offsetChain (page 1000 1000) (Some 2) [2, 3, 4]
   \<and> distinct [2, 3, 4 :: ref]
   \<and> calculateTopPosition (page 1000 1000) (Some 2) = Some 100
   \<and> calculateTopPosition loopPage (Some 2) = None"
  using calculateTopPosition_finite_chain [of "page 1000 1000" "Some 2" "[2, 3, 4]"]
    calculateTopPosition_finite_chain [of loopPage "Some 2" "[]"]
    page_chain [of 1000 1000] loopPage_no_chain
  by (auto simp: page_simps)

subsection \<open>The page counter\<close>

lemma scrollListener_counter:
  "scrollListener p d w = Some (Inr w') \<Longrightarrow>
     (pageLoadedRef w' = pageLoadedRef w \<and> loadMoreCalls w' = loadMoreCalls w)
     \<or> (loadMore p \<and> pageLoadedRef w' = pageLoadedRef w + 1
          \<and> loadMoreCalls w' = loadMoreCalls w @ [pageLoadedRef w + 1])"
  by (auto simp: scrollListener_def scrollListener_trigger_def Let_def
      split: option.splits sum.splits number.splits if_splits)

lemma renderEffect_counter:
  "renderEffect p d w = Inr w' \<Longrightarrow>
     pageLoadedRef w' = pageLoadedRef w \<and> loadMoreCalls w' = loadMoreCalls w"
  by (auto simp: renderEffect_def Let_def split: option.splits if_splits)

lemma step_counter:
  "step a w = Some (Inr w') \<Longrightarrow>
     pageLoadedRef w \<le> pageLoadedRef w'
     \<and> pageLoadedRef w' - pageLoadedRef w
         = int (length (loadMoreCalls w')) - int (length (loadMoreCalls w))"
proof (cases a)
  case (Event ev p d)
  assume "step a w = Some (Inr w')"
  with Event have "w' = w \<or> scrollListener p d w = Some (Inr w')"
    by (auto split: if_splits)
  then show ?thesis using scrollListener_counter [of p d w w'] by auto
next
  case (AfterRender p d)
  assume "step a w = Some (Inr w')"
  with AfterRender have "renderEffect p d w = Inr w'" by simp
  from renderEffect_counter [OF this] show ?thesis by simp
qed

lemma run_counter:
  "run as w = Some (Inr w') \<Longrightarrow>
     pageLoadedRef w \<le> pageLoadedRef w'
     \<and> pageLoadedRef w' - pageLoadedRef w
         = int (length (loadMoreCalls w')) - int (length (loadMoreCalls w))"
proof (induction as arbitrary: w)
  case Nil
  then show ?case by simp
next
  case (Cons a as)
  from Cons.prems obtain w1 where s: "step a w = Some (Inr w1)" and r: "run as w1 = Some (Inr w')"
    by (auto split: option.splits sum.splits)
  from step_counter [OF s] Cons.IH [OF r] show ?case by linarith
qed

lemma attached_simps:
  "scrollComponentRef attached = Some 2" "scrollContainerRef attached = Window"
  "listeners attached = allListeners Window" "pageLoadedRef attached = 0"
  "loadMoreCalls attached = []" "isLoadMoreRef attached = False" "scrollWrites attached = []"
  by (simp_all add: attached_def initialWidget_def)

lemma visible_2: "offsetParent (page h s 2) \<noteq> None"
  by (simp add: page_simps)

lemma scrollListener_config:
  "scrollComponentRef w = Some 2 \<Longrightarrow> scrollContainerRef w = Window \<Longrightarrow>
     scrollListener config (browser h s y) w =
       Some (Inr (if h - y - 700 \<le> 250
                  then w\<lparr>pageLoadedRef := pageLoadedRef w + 1,
                         loadMoreCalls := loadMoreCalls w @ [pageLoadedRef w + 1],
                         isLoadMoreRef := True\<rparr>
                  else w))"
  by (simp add: scrollListener_def window_offset config_simps scrollListener_trigger_def
      browser_simps visible_2)

text \<open>
  What holds of a single trigger in both variants, and of sequences of events in the
  variant with refs. A trigger of a handler that has a \<^verbatim>\<open>loadMore\<close> callback increases the
  page counter by exactly 1 and calls \<^verbatim>\<open>loadMore\<close> exactly once, with the incremented
  counter (a handler without callback calls nothing and leaves the counter as it was; in
  the variant with local variables the trigger needs a non-null scroll parent). In the
  variant with refs the counter therefore never decreases over any sequence of dispatched
  events and post-render effects between two runs of the \<^verbatim>\<open>pageStart\<close> effect, and it
  grows by the number of calls of \<^verbatim>\<open>loadMore\<close>.
\<close>

lemma trigger_increments_page:
  "(scrollListener_offset p d w = Some (Inr (Num v)) \<and> v \<le> threshold p
      \<and> scrollComponentRef w = Some e \<and> offsetParent (elements d e) \<noteq> None \<longrightarrow>
      (\<exists>w'. scrollListener p d w = Some (Inr w')
         \<and> (if loadMore p
             then pageLoadedRef w' = pageLoadedRef w + 1
                  \<and> loadMoreCalls w' = loadMoreCalls w @ [pageLoadedRef w + 1]
             else pageLoadedRef w' = pageLoadedRef w \<and> loadMoreCalls w' = loadMoreCalls w)))
   \<and> (IS_scrollListener_offset p d u = Some (Inr n) \<and> n < threshold p
      \<and> IS_scrollComponentRef u = Some e \<and> offsetParent (elements d e) \<noteq> None
      \<and> getParentElement p d (Some e) \<noteq> None \<longrightarrow>
      (\<exists>u'. IS_scrollListener p d u = Some (Inr u')
         \<and> (if loadMore p
             then pageLoaded u' = pageLoaded u + 1
                  \<and> IS_loadMoreCalls u' = IS_loadMoreCalls u @ [pageLoaded u + 1]
             else pageLoaded u' = pageLoaded u \<and> IS_loadMoreCalls u' = IS_loadMoreCalls u)))
   \<and> (run as w = Some (Inr w'') \<longrightarrow>
        pageLoadedRef w \<le> pageLoadedRef w''
        \<and> pageLoadedRef w'' - pageLoadedRef w
            = int (length (loadMoreCalls w'')) - int (length (loadMoreCalls w)))"
proof (intro conjI impI)
  assume "scrollListener_offset p d w = Some (Inr (Num v)) \<and> v \<le> threshold p
      \<and> scrollComponentRef w = Some e \<and> offsetParent (elements d e) \<noteq> None"
  then show "\<exists>w'. scrollListener p d w = Some (Inr w')
         \<and> (if loadMore p
             then pageLoadedRef w' = pageLoadedRef w + 1
                  \<and> loadMoreCalls w' = loadMoreCalls w @ [pageLoadedRef w + 1]
             else pageLoadedRef w' = pageLoadedRef w \<and> loadMoreCalls w' = loadMoreCalls w)"
    by (cases "loadMore p") (auto simp: scrollListener_def scrollListener_trigger_def Let_def)
next
  assume "IS_scrollListener_offset p d u = Some (Inr n) \<and> n < threshold p
      \<and> IS_scrollComponentRef u = Some e \<and> offsetParent (elements d e) \<noteq> None
      \<and> getParentElement p d (Some e) \<noteq> None"
  then show "\<exists>u'. IS_scrollListener p d u = Some (Inr u')
         \<and> (if loadMore p
             then pageLoaded u' = pageLoaded u + 1
                  \<and> IS_loadMoreCalls u' = IS_loadMoreCalls u @ [pageLoaded u + 1]
             else pageLoaded u' = pageLoaded u \<and> IS_loadMoreCalls u' = IS_loadMoreCalls u)"
    by (cases "loadMore p")
       (auto simp: IS_scrollListener_def IS_scrollListener_trigger_def
          IS_detachScrollListener_def Let_def)
next
  assume "run as w = Some (Inr w'')"
  from run_counter [OF this] show "pageLoadedRef w \<le> pageLoadedRef w''" by simp
next
  assume "run as w = Some (Inr w'')"
  from run_counter [OF this]
  show "pageLoadedRef w'' - pageLoadedRef w
            = int (length (loadMoreCalls w'')) - int (length (loadMoreCalls w))" by simp
qed

text \<open>
  On the example page: at offset 200 both variants call \<^verbatim>\<open>loadMore(1)\<close>; and a scroll at
  offset 300, a scroll at offset 200, a render and a resize at offset 200 take the counter
  of a mounted widget with refs from 0 to 2.
\<close>

lemma trigger_increments_page_example:
  "scrollListener_offset config (browser 1000 1000 100) attached = Some (Inr (Num 200))
   \<and> 200 \<le> threshold config \<and> scrollComponentRef attached = Some 2
   \<and> offsetParent (elements (browser 1000 1000 100) 2) \<noteq> None \<and> loadMore config
   \<and> (\<exists>w'. scrollListener config (browser 1000 1000 100) attached = Some (Inr w')
         \<and> pageLoadedRef w' = pageLoadedRef attached + 1
         \<and> loadMoreCalls w' = loadMoreCalls attached @ [pageLoadedRef attached + 1])
   \<and> IS_scrollListener_offset config (browser 1000 1000 100) (IS_initialWidget (Some 2))
       = Some (Inr 200)
   \<and> IS_scrollComponentRef (IS_initialWidget (Some 2)) = Some 2
   \<and> getParentElement config (browser 1000 1000 100) (Some 2) \<noteq> None
   \<and> (\<exists>u'. IS_scrollListener config (browser 1000 1000 100) (IS_initialWidget (Some 2))
              = Some (Inr u')
         \<and> pageLoaded u' = pageLoaded (IS_initialWidget (Some 2)) + 1
         \<and> IS_loadMoreCalls u' = IS_loadMoreCalls (IS_initialWidget (Some 2))
              @ [pageLoaded (IS_initialWidget (Some 2)) + 1])
   \<and> run [Event Scroll config (browser 1000 1000 0), Event Scroll config (browser 1000 1000 100),
           AfterRender config (browser 1000 1000 100), Event Resize config (browser 1000 1000 100)]
        attached
       = Some (Inr (attached\<lparr>pageLoadedRef := 2, loadMoreCalls := [1, 2], isLoadMoreRef := True\<rparr>))
   \<and> pageLoadedRef attached
       \<le> pageLoadedRef (attached\<lparr>pageLoadedRef := 2, loadMoreCalls := [1, 2], isLoadMoreRef := True\<rparr>)"
proof -
  let ?d = "browser 1000 1000 100"
  let ?as = "[Event Scroll config (browser 1000 1000 0), Event Scroll config ?d,
              AfterRender config ?d, Event Resize config ?d]"
  let ?w = "attached\<lparr>pageLoadedRef := 2, loadMoreCalls := [1, 2], isLoadMoreRef := True\<rparr>"
  have h1: "scrollListener_offset config ?d attached = Some (Inr (Num 200))"
    by (simp add: window_offset config_simps attached_simps)
  have h2: "IS_scrollListener_offset config ?d (IS_initialWidget (Some 2)) = Some (Inr 200)"
    by (simp add: IS_config_offset)
  have h3: "IS_scrollComponentRef (IS_initialWidget (Some 2)) = Some 2"
    "offsetParent (elements ?d 2) \<noteq> None" "getParentElement config ?d (Some 2) \<noteq> None"
    by (simp_all add: IS_initialWidget_def browser_simps page_simps config_parent)
  have h4: "run ?as attached = Some (Inr ?w)"
    by (simp add: scrollListener_config attached_simps allListeners_def renderEffect_def
        config_simps)
  from trigger_increments_page [of config ?d attached 200 2 "IS_initialWidget (Some 2)" 200
      ?as ?w] h1 h2 h3 h4
  show ?thesis by (simp add: config_simps attached_simps)
qed

lemma scrollOnlyConfig_simps:
  "hasMore scrollOnlyConfig" "\<not> initialLoad scrollOnlyConfig" "pageStart scrollOnlyConfig = 0"
  "threshold scrollOnlyConfig = 250" "useWindow scrollOnlyConfig" "\<not> isReverse scrollOnlyConfig"
  "loadMore scrollOnlyConfig" "getScrollParent scrollOnlyConfig = None"
  by (simp_all add: scrollOnlyConfig_def config_def)

lemma window_parent:
  "getScrollParent p = None \<Longrightarrow> getParentElement p (browser h s y) (Some 2) = Some 3"
  by (simp add: getParentElement_def browser_simps page_simps)

lemma allListeners_Window_detached:
  "allListeners Window - {(Window, Scroll), (Window, Resize)} = {(Window, Mousewheel)}"
  "{(Window, Mousewheel)} - {(Window, Scroll), (Window, Resize)} = {(Window, Mousewheel)}"
  "{(Window, Mousewheel)} - {(Window, Mousewheel)} = {}"
  "{(Window, Mousewheel)} \<union> allListeners Window = allListeners Window"
  "allListeners Window \<union> allListeners Window = allListeners Window"
  "{} \<union> allListeners Window = allListeners Window"
  "insert (Window, Mousewheel) (allListeners Window) = allListeners Window"
  by (auto simp: allListeners_def)

text \<open>
  Claim C3 in the variant with local variables, with \<^verbatim>\<open>pageStart\<close> 0 throughout and a
  \<^verbatim>\<open>loadMore\<close> callback. The widget is mounted without initial load; a scroll event at
  offset 200 is a trigger and calls \<^verbatim>\<open>loadMore(1)\<close>, which leaves the counter at 1; the
  component renders again, which declares the counter afresh, at 0; a second scroll event at
  offset 200 is a trigger and calls \<^verbatim>\<open>loadMore(1)\<close> again. The counter has decreased
  between two triggers without a change of \<^verbatim>\<open>pageStart\<close>, and the second trigger has not
  called \<^verbatim>\<open>loadMore\<close> with the prior value plus 1.
\<close>

theorem IS_rerender_restarts_counter:
  "pageStart scrollOnlyConfig = 0 \<and> loadMore scrollOnlyConfig
   \<and> IS_mount scrollOnlyConfig (browser 1000 1000 100) (IS_initialWidget (Some 2))
       = Some (Inr ((IS_initialWidget (Some 2))\<lparr>IS_listeners := allListeners Window\<rparr>))
   \<and> (Window, Scroll) \<in> allListeners Window
   \<and> IS_scrollListener scrollOnlyConfig (browser 1000 1000 100)
         ((IS_initialWidget (Some 2))\<lparr>IS_listeners := allListeners Window\<rparr>)
       = Some (Inr ((IS_initialWidget (Some 2))
            \<lparr>IS_listeners := {(Window, Mousewheel)}, beforeScrollHeight := 1200,
             beforeScrollTop := 500, pageLoaded := 1, IS_loadMoreCalls := [1],
             isLoadMore := True\<rparr>))
   \<and> IS_rerender scrollOnlyConfig scrollOnlyConfig (browser 1000 1000 100)
         ((IS_initialWidget (Some 2))
            \<lparr>IS_listeners := {(Window, Mousewheel)}, beforeScrollHeight := 1200,
             beforeScrollTop := 500, pageLoaded := 1, IS_loadMoreCalls := [1],
             isLoadMore := True\<rparr>)
       = Some (Inr ((IS_initialWidget (Some 2))
            \<lparr>IS_listeners := allListeners Window, pageLoaded := 0, IS_loadMoreCalls := [1]\<rparr>))
   \<and> IS_scrollListener scrollOnlyConfig (browser 1000 1000 100)
         ((IS_initialWidget (Some 2))
            \<lparr>IS_listeners := allListeners Window, pageLoaded := 0, IS_loadMoreCalls := [1]\<rparr>)
       = Some (Inr ((IS_initialWidget (Some 2))
            \<lparr>IS_listeners := {(Window, Mousewheel)}, beforeScrollHeight := 1200,
             beforeScrollTop := 500, pageLoaded := 1, IS_loadMoreCalls := [1, 1],
             isLoadMore := True\<rparr>))"
proof -
  let ?p = scrollOnlyConfig and ?d = "browser 1000 1000 100"
  let ?u0 = "IS_initialWidget (Some 2)"
  let ?u1 = "?u0\<lparr>IS_listeners := allListeners Window\<rparr>"
  let ?u2 = "?u0\<lparr>IS_listeners := {(Window, Mousewheel)}, beforeScrollHeight := 1200,
             beforeScrollTop := 500, pageLoaded := 1, IS_loadMoreCalls := [1],
             isLoadMore := True\<rparr>"
  let ?u3 = "?u0\<lparr>IS_listeners := allListeners Window, pageLoaded := 0,
             IS_loadMoreCalls := [1]\<rparr>"
  let ?u4 = "?u0\<lparr>IS_listeners := {(Window, Mousewheel)}, beforeScrollHeight := 1200,
             beforeScrollTop := 500, pageLoaded := 1, IS_loadMoreCalls := [1, 1],
             isLoadMore := True\<rparr>"
  note p = scrollOnlyConfig_simps
  have par: "getParentElement ?p ?d (Some 2) = Some 3"
    by (simp add: window_parent p)
  have off: "\<And>u. IS_scrollComponentRef u = Some 2 \<Longrightarrow>
      IS_scrollListener_offset ?p ?d u = Some (Inr 200)"
    by (simp add: IS_window_offset p)
  have attach: "\<And>u. IS_scrollComponentRef u = Some 2 \<Longrightarrow>
      IS_attachScrollListener ?p ?d u
        = Some (Inr (u\<lparr>IS_listeners := IS_listeners u \<union> allListeners Window\<rparr>))"
    by (simp add: IS_attachScrollListener_def par p IS_scrollEl_def)
  have m: "IS_mount ?p ?d ?u0 = Some (Inr ?u1)"
    by (simp add: IS_mount_def IS_pageStartEffect_def IS_renderEffect_def attach p
        IS_initialWidget_def allListeners_Window_detached)
  have s1: "IS_scrollListener ?p ?d ?u1 = Some (Inr ?u2)"
    by (simp add: IS_scrollListener_def off IS_scrollListener_trigger_def
        IS_detachScrollListener_def par p IS_scrollEl_def IS_initialWidget_def
        browser_simps page_simps allListeners_Window_detached)
  have r: "IS_rerender ?p ?p ?d ?u2 = Some (Inr ?u3)"
    by (simp add: IS_rerender_def IS_cleanup_def IS_detachScrollListener_def
        IS_detachMousewheelListener_def IS_declarations_def IS_renderEffect_def attach
        par p IS_scrollEl_def IS_initialWidget_def allListeners_Window_detached)
  have s2: "IS_scrollListener ?p ?d ?u3 = Some (Inr ?u4)"
    by (simp add: IS_scrollListener_def off IS_scrollListener_trigger_def
        IS_detachScrollListener_def par p IS_scrollEl_def IS_initialWidget_def
        browser_simps page_simps allListeners_Window_detached)
  have "(Window, Scroll) \<in> allListeners Window"
    by (simp add: allListeners_def)
  with m s1 r s2 p show ?thesis by simp
qed


subsection \<open>Reverse mode\<close>

lemma IS_scrollListener_writes:
  "IS_scrollListener p d u = Some (Inr u') \<Longrightarrow> IS_scrollWrites u' = IS_scrollWrites u"
  by (auto simp: IS_scrollListener_def IS_scrollListener_trigger_def IS_detachScrollListener_def
      Let_def split: option.splits sum.splits if_splits)

lemma IS_attachScrollListener_writes:
  "IS_attachScrollListener p d u = Some (Inr u') \<Longrightarrow> IS_scrollWrites u' = IS_scrollWrites u"
  by (auto simp: IS_attachScrollListener_def Let_def dest: IS_scrollListener_writes
      split: option.splits if_splits)

lemma reverseConfig_simps:
  "hasMore reverseConfig" "\<not> initialLoad reverseConfig" "threshold reverseConfig = 250"
  "useWindow reverseConfig" "isReverse reverseConfig" "loadMore reverseConfig"
  "getScrollParent reverseConfig = None"
  by (simp_all add: reverseConfig_def config_def)

lemma reverse_offset:
  "scrollListener_offset reverseConfig (browser h s y) attached = Some (Inr (Num y))"
  by (simp add: scrollListener_offset_def reverseConfig_simps attached_simps browser_simps)

lemma IS_reverse_offset:
  "IS_scrollListener_offset reverseConfig (browser h s y) u = Some (Inr y)"
  by (simp add: IS_scrollListener_offset_def reverseConfig_simps browser_simps)

text \<open>
  The variant with refs compensates. When a trigger in reverse mode (with a \<^verbatim>\<open>loadMore\<close>
  callback) is followed by a render in reverse mode, the post-render effect writes to the
  scroll container the position \<open>y\<close> = (scroll height of the widget's element after the
  render) - (its scroll height at the trigger) + (the offset at the trigger), by
  \<^verbatim>\<open>scrollTo(0, y)\<close> where the container has that method and by assignment to
  \<^verbatim>\<open>scrollTop\<close> otherwise, and clears the pending flag. In general, with the flag set it
  writes the new scroll height minus the snapshot's scroll height plus the snapshot's
  offset, and with the flag clear or outside reverse mode it does nothing. In the variant
  with local variables no effect writes a scroll position.
\<close>

lemma reverse_compensation:
  "(isReverse p \<and> loadMore p \<and> isReverse p' \<and> scrollComponentRef w = Some e
      \<and> scrollListener_offset p d w = Some (Inr (Num off)) \<and> off \<le> threshold p
      \<and> offsetParent (elements d e) \<noteq> None \<longrightarrow>
      (\<exists>w1 w2. scrollListener p d w = Some (Inr w1) \<and> isLoadMoreRef w1
         \<and> beforeSizeRef w1 = \<lparr>before_scrollHeight = scrollHeight (elements d e),
                                before_scrollTop = off\<rparr>
         \<and> renderEffect p' d' w1 = Inr w2
         \<and> scrollWrites w2 = scrollWrites w @
              [(scrollContainerRef w,
                if (case scrollContainerRef w of Window \<Rightarrow> True | Elem r \<Rightarrow> elementScrollTo d')
                then ScrollTo 0 (scrollHeight (elements d' e) - scrollHeight (elements d e) + off)
                else SetScrollTop (scrollHeight (elements d' e) - scrollHeight (elements d e) + off))]
         \<and> \<not> isLoadMoreRef w2))
   \<and> (isReverse p' \<and> isLoadMoreRef w \<and> scrollComponentRef w = Some e \<longrightarrow>
      (\<exists>w2. renderEffect p' d' w = Inr w2
         \<and> scrollWrites w2 = scrollWrites w @
              [(scrollContainerRef w,
                if (case scrollContainerRef w of Window \<Rightarrow> True | Elem r \<Rightarrow> elementScrollTo d')
                then ScrollTo 0 (scrollHeight (elements d' e)
                       - before_scrollHeight (beforeSizeRef w) + before_scrollTop (beforeSizeRef w))
                else SetScrollTop (scrollHeight (elements d' e)
                       - before_scrollHeight (beforeSizeRef w) + before_scrollTop (beforeSizeRef w)))]
         \<and> \<not> isLoadMoreRef w2))
   \<and> (\<not> (isReverse p' \<and> isLoadMoreRef w) \<longrightarrow> renderEffect p' d' w = Inr w)
   \<and> (IS_renderEffect p' d' u = Some (Inr u') \<longrightarrow> IS_scrollWrites u' = IS_scrollWrites u)"
proof (intro conjI impI)
  assume a: "isReverse p \<and> loadMore p \<and> isReverse p' \<and> scrollComponentRef w = Some e
      \<and> scrollListener_offset p d w = Some (Inr (Num off)) \<and> off \<le> threshold p
      \<and> offsetParent (elements d e) \<noteq> None"
  define w1 where "w1 = scrollListener_trigger p d e off w"
  from a have s: "scrollListener p d w = Some (Inr w1)"
    by (auto simp: scrollListener_def w1_def)
  from a have f: "isLoadMoreRef w1" "scrollComponentRef w1 = Some e"
    "scrollContainerRef w1 = scrollContainerRef w" "scrollWrites w1 = scrollWrites w"
    "beforeSizeRef w1 = \<lparr>before_scrollHeight = scrollHeight (elements d e),
                                before_scrollTop = off\<rparr>"
    by (simp_all add: w1_def scrollListener_trigger_def)
  from a f have "\<exists>w2. renderEffect p' d' w1 = Inr w2
         \<and> scrollWrites w2 = scrollWrites w @
              [(scrollContainerRef w,
                if (case scrollContainerRef w of Window \<Rightarrow> True | Elem r \<Rightarrow> elementScrollTo d')
                then ScrollTo 0 (scrollHeight (elements d' e) - scrollHeight (elements d e) + off)
                else SetScrollTop (scrollHeight (elements d' e) - scrollHeight (elements d e) + off))]
         \<and> \<not> isLoadMoreRef w2"
    by (simp add: renderEffect_def Let_def)
  with s f show "\<exists>w1 w2. scrollListener p d w = Some (Inr w1) \<and> isLoadMoreRef w1
         \<and> beforeSizeRef w1 = \<lparr>before_scrollHeight = scrollHeight (elements d e),
                                before_scrollTop = off\<rparr>
         \<and> renderEffect p' d' w1 = Inr w2
         \<and> scrollWrites w2 = scrollWrites w @
              [(scrollContainerRef w,
                if (case scrollContainerRef w of Window \<Rightarrow> True | Elem r \<Rightarrow> elementScrollTo d')
                then ScrollTo 0 (scrollHeight (elements d' e) - scrollHeight (elements d e) + off)
                else SetScrollTop (scrollHeight (elements d' e) - scrollHeight (elements d e) + off))]
         \<and> \<not> isLoadMoreRef w2"
    by blast
next
  assume "isReverse p' \<and> isLoadMoreRef w \<and> scrollComponentRef w = Some e"
  then show "\<exists>w2. renderEffect p' d' w = Inr w2
         \<and> scrollWrites w2 = scrollWrites w @
              [(scrollContainerRef w,
                if (case scrollContainerRef w of Window \<Rightarrow> True | Elem r \<Rightarrow> elementScrollTo d')
                then ScrollTo 0 (scrollHeight (elements d' e)
                       - before_scrollHeight (beforeSizeRef w) + before_scrollTop (beforeSizeRef w))
                else SetScrollTop (scrollHeight (elements d' e)
                       - before_scrollHeight (beforeSizeRef w) + before_scrollTop (beforeSizeRef w)))]
         \<and> \<not> isLoadMoreRef w2"
    by (simp add: renderEffect_def Let_def)
next
  assume "\<not> (isReverse p' \<and> isLoadMoreRef w)"
  then show "renderEffect p' d' w = Inr w"
    by (auto simp: renderEffect_def)
next
  assume "IS_renderEffect p' d' u = Some (Inr u')"
  then show "IS_scrollWrites u' = IS_scrollWrites u"
    by (simp add: IS_renderEffect_def IS_attachScrollListener_writes)
qed

text \<open>
  On the example page: a trigger at scroll position 50 with scroll height 1000, then a
  render that has grown the scroll height to 1400, scrolls the window to
  1400 - 1000 + 50 = 450.
\<close>

lemma reverse_compensation_example:
  "scrollListener reverseConfig (browser 1000 1000 50) attached
     = Some (Inr (attached\<lparr>beforeSizeRef := \<lparr>before_scrollHeight = 1000, before_scrollTop = 50\<rparr>,
          pageLoadedRef := 1, loadMoreCalls := [1], isLoadMoreRef := True\<rparr>))
   \<and> renderEffect reverseConfig (browser 1400 1400 50)
        (attached\<lparr>beforeSizeRef := \<lparr>before_scrollHeight = 1000, before_scrollTop = 50\<rparr>,
          pageLoadedRef := 1, loadMoreCalls := [1], isLoadMoreRef := True\<rparr>)
     = Inr (attached\<lparr>beforeSizeRef := \<lparr>before_scrollHeight = 1000, before_scrollTop = 50\<rparr>,
          pageLoadedRef := 1, loadMoreCalls := [1],
          scrollWrites := [(Window, ScrollTo 0 450)], isLoadMoreRef := False\<rparr>)"
  by (simp add: scrollListener_def reverse_offset scrollListener_trigger_def renderEffect_def
      reverseConfig_simps attached_simps browser_simps page_simps)

lemma reverseLoadConfig_simps:
  "hasMore reverseLoadConfig" "initialLoad reverseLoadConfig" "pageStart reverseLoadConfig = 0"
  "threshold reverseLoadConfig = 250" "useWindow reverseLoadConfig" "isReverse reverseLoadConfig"
  "loadMore reverseLoadConfig" "getScrollParent reverseLoadConfig = None"
  by (simp_all add: reverseLoadConfig_def config_def)

text \<open>
  Claim C4 in the variant with local variables, mounted in reverse mode with the initial
  load and a \<^verbatim>\<open>loadMore\<close> callback, the window scrolled by 50. The initial check of the
  \<^verbatim>\<open>pageStart\<close> effect is a trigger: it takes the snapshot, calls \<^verbatim>\<open>loadMore(1)\<close> and sets
  the pending flag. The post-render effect of the same render then runs with the flag set:
  it attaches the listeners and runs the check again, writes no scroll position and leaves
  the flag set. The next render, with the scroll height grown to 1400, declares the flag
  afresh, and its post-render effect writes no scroll position either.
\<close>

theorem IS_mount_reverse_no_compensation:
  "isReverse reverseLoadConfig \<and> loadMore reverseLoadConfig
   \<and> IS_pageStartEffect reverseLoadConfig (browser 1000 1000 50) (IS_initialWidget (Some 2))
       = Some (Inr ((IS_initialWidget (Some 2))
            \<lparr>IS_listeners := {(Window, Mousewheel)}, beforeScrollHeight := 1200,
             beforeScrollTop := 500, pageLoaded := 1, IS_loadMoreCalls := [1],
             isLoadMore := True\<rparr>))
   \<and> IS_renderEffect reverseLoadConfig (browser 1000 1000 50)
         ((IS_initialWidget (Some 2))
            \<lparr>IS_listeners := {(Window, Mousewheel)}, beforeScrollHeight := 1200,
             beforeScrollTop := 500, pageLoaded := 1, IS_loadMoreCalls := [1],
             isLoadMore := True\<rparr>)
       = Some (Inr ((IS_initialWidget (Some 2))
            \<lparr>IS_listeners := {(Window, Mousewheel)}, beforeScrollHeight := 1200,
             beforeScrollTop := 500, pageLoaded := 2, IS_loadMoreCalls := [1, 2],
             isLoadMore := True, IS_scrollWrites := []\<rparr>))
   \<and> IS_mount reverseLoadConfig (browser 1000 1000 50) (IS_initialWidget (Some 2))
       = Some (Inr ((IS_initialWidget (Some 2))
            \<lparr>IS_listeners := {(Window, Mousewheel)}, beforeScrollHeight := 1200,
             beforeScrollTop := 500, pageLoaded := 2, IS_loadMoreCalls := [1, 2],
             isLoadMore := True, IS_scrollWrites := []\<rparr>))
   \<and> IS_rerender reverseLoadConfig reverseLoadConfig (browser 1400 1400 50)
         ((IS_initialWidget (Some 2))
            \<lparr>IS_listeners := {(Window, Mousewheel)}, beforeScrollHeight := 1200,
             beforeScrollTop := 500, pageLoaded := 2, IS_loadMoreCalls := [1, 2],
             isLoadMore := True, IS_scrollWrites := []\<rparr>)
       = Some (Inr ((IS_initialWidget (Some 2))
            \<lparr>IS_listeners := {(Window, Mousewheel)}, beforeScrollHeight := 1200,
             beforeScrollTop := 500, pageLoaded := 1, IS_loadMoreCalls := [1, 2, 1],
             isLoadMore := True, IS_scrollWrites := []\<rparr>))"
proof -
  let ?p = reverseLoadConfig and ?d = "browser 1000 1000 50" and ?d' = "browser 1400 1400 50"
  let ?u0 = "IS_initialWidget (Some 2)"
  let ?v1 = "?u0\<lparr>IS_listeners := {(Window, Mousewheel)}, beforeScrollHeight := 1200,
             beforeScrollTop := 500, pageLoaded := 1, IS_loadMoreCalls := [1],
             isLoadMore := True\<rparr>"
  let ?v2 = "?u0\<lparr>IS_listeners := {(Window, Mousewheel)}, beforeScrollHeight := 1200,
             beforeScrollTop := 500, pageLoaded := 2, IS_loadMoreCalls := [1, 2],
             isLoadMore := True, IS_scrollWrites := []\<rparr>"
  let ?v3 = "?u0\<lparr>IS_listeners := {(Window, Mousewheel)}, beforeScrollHeight := 1200,
             beforeScrollTop := 500, pageLoaded := 1, IS_loadMoreCalls := [1, 2, 1],
             isLoadMore := True, IS_scrollWrites := []\<rparr>"
  note p = reverseLoadConfig_simps
  have par: "\<And>h s. getParentElement ?p (browser h s 50) (Some 2) = Some 3"
    by (simp add: window_parent p)
  have off: "\<And>h s u. IS_scrollListener_offset ?p (browser h s 50) u = Some (Inr 50)"
    by (simp add: IS_scrollListener_offset_def p browser_simps)
  have listen: "\<And>h s u. IS_scrollComponentRef u = Some 2 \<Longrightarrow>
      IS_scrollListener ?p (browser h s 50) u
        = Some (Inr (u\<lparr>IS_listeners := IS_listeners u - {(Window, Scroll), (Window, Resize)},
             beforeScrollHeight := 1200, beforeScrollTop := 500, pageLoaded := pageLoaded u + 1,
             IS_loadMoreCalls := IS_loadMoreCalls u @ [pageLoaded u + 1], isLoadMore := True\<rparr>))"
    by (simp add: IS_scrollListener_def off IS_scrollListener_trigger_def
        IS_detachScrollListener_def par p IS_scrollEl_def browser_simps page_simps)
  have attach: "\<And>h s u. IS_scrollComponentRef u = Some 2 \<Longrightarrow>
      IS_attachScrollListener ?p (browser h s 50) u
        = IS_scrollListener ?p (browser h s 50)
            (u\<lparr>IS_listeners := IS_listeners u \<union> allListeners Window\<rparr>)"
    by (simp add: IS_attachScrollListener_def par p IS_scrollEl_def)
  have e1: "IS_pageStartEffect ?p ?d ?u0 = Some (Inr ?v1)"
    by (simp add: IS_pageStartEffect_def attach listen p IS_initialWidget_def
        allListeners_Window_detached)
  have e2: "IS_renderEffect ?p ?d ?v1 = Some (Inr ?v2)"
    by (simp add: IS_renderEffect_def attach listen IS_initialWidget_def
        allListeners_Window_detached)
  have m: "IS_mount ?p ?d ?u0 = Some (Inr ?v2)"
    by (simp add: IS_mount_def e1 e2)
  have r: "IS_rerender ?p ?p ?d' ?v2 = Some (Inr ?v3)"
    by (simp add: IS_rerender_def IS_cleanup_def IS_detachScrollListener_def
        IS_detachMousewheelListener_def IS_declarations_def IS_renderEffect_def attach listen
        par p IS_scrollEl_def IS_initialWidget_def allListeners_Window_detached)
  from e1 e2 m r p show ?thesis by simp
qed


subsection \<open>The offset in forward mode\<close>

lemma containerConfig_simps:
  "hasMore containerConfig" "\<not> initialLoad containerConfig" "threshold containerConfig = 250"
  "\<not> useWindow containerConfig" "\<not> isReverse containerConfig" "loadMore containerConfig"
  "getScrollParent containerConfig = None"
  by (simp_all add: containerConfig_def config_def)

lemma attachedTo3_simps:
  "scrollComponentRef attachedTo3 = Some 2" "scrollContainerRef attachedTo3 = Elem 3"
  by (simp_all add: attachedTo3_def initialWidget_def)

text \<open>
  Claim C5, as amended. In forward mode with \<^verbatim>\<open>useWindow\<close> true, for a widget whose
  element is set and has a finite \<^verbatim>\<open>offsetParent\<close> chain, the computed offset is the sum of
  \<^verbatim>\<open>offsetTop\<close> along the chain, plus the element's \<^verbatim>\<open>offsetHeight\<close> (not its scroll
  height), minus the scroll position of the window, minus the inner height of the window.
  The scroll position of the window is \<^verbatim>\<open>pageYOffset\<close> of the scroll target where that
  is defined, and the \<^verbatim>\<open>scrollTop\<close> of the document element otherwise.
\<close>

theorem window_forward_offset:
  "(useWindow p \<and> \<not> isReverse p \<and> scrollComponentRef w = Some e
      \<and> offsetChain (elements d) (Some e) rs \<longrightarrow>
      scrollListener_offset p d w =
        Some (Inr (Num ((\<Sum>r\<leftarrow>rs. offsetTop (elements d r)) + offsetHeight (elements d e)
           - (case scrollContainerRef w of
                Window \<Rightarrow> (case pageYOffset d of Some y \<Rightarrow> y | None \<Rightarrow> docScrollTop d)
              | Elem r \<Rightarrow> docScrollTop d)
           - innerHeight d))))
   \<and> (useWindow p \<and> \<not> isReverse p \<and> IS_scrollComponentRef u = Some e
      \<and> offsetChain (elements d) (Some e) rs \<longrightarrow>
      IS_scrollListener_offset p d u =
        Some (Inr ((\<Sum>r\<leftarrow>rs. offsetTop (elements d r)) + offsetHeight (elements d e)
           - (case pageYOffset d of Some y \<Rightarrow> y | None \<Rightarrow> docScrollTop d)
           - innerHeight d)))"
proof (intro conjI impI)
  assume a: "useWindow p \<and> \<not> isReverse p \<and> scrollComponentRef w = Some e
      \<and> offsetChain (elements d) (Some e) rs"
  then have "calculateTopPosition (elements d) (Some e) = Some (\<Sum>r\<leftarrow>rs. offsetTop (elements d r))"
    by (simp add: calculateTopPosition_chain)
  with a show "scrollListener_offset p d w =
        Some (Inr (Num ((\<Sum>r\<leftarrow>rs. offsetTop (elements d r)) + offsetHeight (elements d e)
           - (case scrollContainerRef w of
                Window \<Rightarrow> (case pageYOffset d of Some y \<Rightarrow> y | None \<Rightarrow> docScrollTop d)
              | Elem r \<Rightarrow> docScrollTop d)
           - innerHeight d)))"
    by (simp add: scrollListener_offset_def calculateOffset_def)
next
  assume a: "useWindow p \<and> \<not> isReverse p \<and> IS_scrollComponentRef u = Some e
      \<and> offsetChain (elements d) (Some e) rs"
  then have "calculateTopPosition (elements d) (Some e) = Some (\<Sum>r\<leftarrow>rs. offsetTop (elements d r))"
    by (simp add: calculateTopPosition_chain)
  with a show "IS_scrollListener_offset p d u =
        Some (Inr ((\<Sum>r\<leftarrow>rs. offsetTop (elements d r)) + offsetHeight (elements d e)
           - (case pageYOffset d of Some y \<Rightarrow> y | None \<Rightarrow> docScrollTop d)
           - innerHeight d))"
    by (simp add: IS_scrollListener_offset_def calculateOffset_def)
qed

text \<open>
  The amended claim on the example page, with an element of height 300 and scroll height
  1000 and the window scrolled by 50: the offset is 40 + 60 + 0 + 300 - 50 - 800 = -450 in
  both variants.
\<close>

theorem window_forward_offset_witness:
  "useWindow config \<and> \<not> isReverse config \<and> scrollComponentRef attached = Some 2
   \<and> IS_scrollComponentRef (IS_initialWidget (Some 2)) = Some 2
   \<and> offsetChain (elements (browser 300 1000 50)) (Some 2) [2, 3, 4]
   \<and> scrollListener_offset config (browser 300 1000 50) attached = Some (Inr (Num (- 450)))
   \<and> IS_scrollListener_offset config (browser 300 1000 50) (IS_initialWidget (Some 2))
       = Some (Inr (- 450))"
proof -
  have h: "useWindow config" "\<not> isReverse config" "scrollComponentRef attached = Some 2"
    "IS_scrollComponentRef (IS_initialWidget (Some 2)) = Some 2"
    "offsetChain (elements (browser 300 1000 50)) (Some 2) [2, 3, 4]"
    by (simp_all add: config_simps attached_simps IS_initialWidget_def browser_simps page_simps)
  from window_forward_offset [of config attached 2 "browser 300 1000 50" "[2, 3, 4]"
      "IS_initialWidget (Some 2)"] h
  show ?thesis by (simp add: attached_simps browser_simps page_simps)
qed

text \<open>
  Claim C5 as stated fails where the element's scroll height differs from its
  \<^verbatim>\<open>offsetHeight\<close>: on the same page the claim's formula, with the scroll height 1000,
  gives 250, and neither variant computes that.
\<close>

theorem window_forward_offset_counterexample:
  "useWindow config \<and> \<not> isReverse config
   \<and> offsetChain (elements (browser 300 1000 50)) (Some 2) [2, 3, 4]
   \<and> (\<Sum>r\<leftarrow>[2, 3, 4]. offsetTop (elements (browser 300 1000 50) r))
       + scrollHeight (elements (browser 300 1000 50) 2) - 50
       - innerHeight (browser 300 1000 50) = 250
   \<and> scrollListener_offset config (browser 300 1000 50) attached \<noteq> Some (Inr (Num 250))
   \<and> IS_scrollListener_offset config (browser 300 1000 50) (IS_initialWidget (Some 2))
       \<noteq> Some (Inr 250)"
  by (simp add: window_offset IS_window_offset config_simps attached_simps IS_initialWidget_def
      browser_simps page_simps)

text \<open>
  Claim C6, as amended. In forward mode with \<^verbatim>\<open>useWindow\<close> false, for a widget whose
  element is set, the computed offset is the scroll height of the widget's own element
  minus the \<^verbatim>\<open>scrollTop\<close> of the scroll parent minus the \<^verbatim>\<open>clientHeight\<close> of the scroll
  parent. The scroll parent is the element held in \<^verbatim>\<open>scrollContainerRef\<close> in the variant
  with refs, and the result of \<^verbatim>\<open>getParentElement\<close> in the variant with local variables.
\<close>

theorem container_forward_offset:
  "(\<not> useWindow p \<and> \<not> isReverse p \<and> scrollComponentRef w = Some e
      \<and> scrollContainerRef w = Elem r \<longrightarrow>
      scrollListener_offset p d w =
        Some (Inr (Num (scrollHeight (elements d e) - scrollTop (elements d r)
                          - clientHeight (elements d r)))))
   \<and> (\<not> useWindow p \<and> \<not> isReverse p \<and> IS_scrollComponentRef u = Some e
      \<and> getParentElement p d (Some e) = Some r \<longrightarrow>
      IS_scrollListener_offset p d u =
        Some (Inr (scrollHeight (elements d e) - scrollTop (elements d r)
                     - clientHeight (elements d r))))"
  by (simp add: scrollListener_offset_def IS_scrollListener_offset_def)

text \<open>
  The amended claim on the example page: the widget's element has scroll height 1000, its
  scroll parent is scrolled by 500 and is 400 high, and the offset is 100.
\<close>

theorem container_forward_offset_witness:
  "\<not> useWindow containerConfig \<and> \<not> isReverse containerConfig
   \<and> scrollComponentRef attachedTo3 = Some 2 \<and> scrollContainerRef attachedTo3 = Elem 3
   \<and> IS_scrollComponentRef (IS_initialWidget (Some 2)) = Some 2
   \<and> getParentElement containerConfig (browser 300 1000 0) (Some 2) = Some 3
   \<and> scrollListener_offset containerConfig (browser 300 1000 0) attachedTo3
       = Some (Inr (Num 100))
   \<and> IS_scrollListener_offset containerConfig (browser 300 1000 0) (IS_initialWidget (Some 2))
       = Some (Inr 100)"
proof -
  have h: "\<not> useWindow containerConfig" "\<not> isReverse containerConfig"
    "scrollComponentRef attachedTo3 = Some 2" "scrollContainerRef attachedTo3 = Elem 3"
    "IS_scrollComponentRef (IS_initialWidget (Some 2)) = Some 2"
    "getParentElement containerConfig (browser 300 1000 0) (Some 2) = Some 3"
    by (simp_all add: containerConfig_simps attachedTo3_simps IS_initialWidget_def
        getParentElement_def browser_simps page_simps)
  from container_forward_offset [of containerConfig attachedTo3 2 3 "browser 300 1000 0"
      "IS_initialWidget (Some 2)"] h
  show ?thesis by (simp add: browser_simps page_simps)
qed

text \<open>
  Claim C6 as stated takes the three quantities from one element. On the example page the
  scroll parent has scroll height 1200, \<^verbatim>\<open>scrollTop\<close> 500 and \<^verbatim>\<open>clientHeight\<close> 400, which
  gives 300; the widget's own element has scroll height 1000, \<^verbatim>\<open>scrollTop\<close> 0 and
  \<^verbatim>\<open>clientHeight\<close> 300, which gives 700. Both variants compute 100.
\<close>

theorem container_forward_offset_counterexample:
  "\<not> useWindow containerConfig \<and> \<not> isReverse containerConfig
   \<and> scrollContainerRef attachedTo3 = Elem 3
   \<and> getParentElement containerConfig (browser 300 1000 0) (Some 2) = Some 3
   \<and> scrollHeight (elements (browser 300 1000 0) 3) - scrollTop (elements (browser 300 1000 0) 3)
       - clientHeight (elements (browser 300 1000 0) 3) = 300
   \<and> scrollHeight (elements (browser 300 1000 0) 2) - scrollTop (elements (browser 300 1000 0) 2)
       - clientHeight (elements (browser 300 1000 0) 2) = 700
   \<and> scrollListener_offset containerConfig (browser 300 1000 0) attachedTo3
       = Some (Inr (Num 100))
   \<and> IS_scrollListener_offset containerConfig (browser 300 1000 0) (IS_initialWidget (Some 2))
       = Some (Inr 100)"
  by (simp add: scrollListener_offset_def IS_scrollListener_offset_def containerConfig_simps
      attachedTo3_simps IS_initialWidget_def getParentElement_def browser_simps page_simps)

subsection \<open>Initialisation\<close>

lemma IS_scrollListener_counter:
  "IS_scrollListener p d u = Some (Inr u') \<Longrightarrow>
     (pageLoaded u' = pageLoaded u \<and> IS_loadMoreCalls u' = IS_loadMoreCalls u)
     \<or> (loadMore p \<and> pageLoaded u' = pageLoaded u + 1
          \<and> IS_loadMoreCalls u' = IS_loadMoreCalls u @ [pageLoaded u + 1])"
  by (auto simp: IS_scrollListener_def IS_scrollListener_trigger_def IS_detachScrollListener_def
      Let_def split: option.splits sum.splits if_splits)

lemma IS_attachScrollListener_counter:
  "IS_attachScrollListener p d u = Some (Inr u') \<Longrightarrow>
     (pageLoaded u' = pageLoaded u \<and> IS_loadMoreCalls u' = IS_loadMoreCalls u)
     \<or> (initialLoad p \<and> hasMore p \<and> loadMore p \<and> pageLoaded u' = pageLoaded u + 1
          \<and> IS_loadMoreCalls u' = IS_loadMoreCalls u @ [pageLoaded u + 1])"
proof -
  assume a: "IS_attachScrollListener p d u = Some (Inr u')"
  show ?thesis
  proof (cases "getParentElement p d (IS_scrollComponentRef u)")
    case None
    with a show ?thesis by (simp add: IS_attachScrollListener_def)
  next
    case (Some r)
    show ?thesis
    proof (cases "hasMore p \<and> initialLoad p")
      case False
      with a Some show ?thesis
        by (auto simp: IS_attachScrollListener_def Let_def split: if_splits)
    next
      case True
      with a Some have "IS_scrollListener p d
          (u\<lparr>IS_listeners := IS_listeners u \<union> allListeners (IS_scrollEl p (Some r))\<rparr>)
          = Some (Inr u')"
        by (simp add: IS_attachScrollListener_def Let_def)
      from IS_scrollListener_counter [OF this] True show ?thesis by auto
    qed
  qed
qed

lemma pageStartEffect_unfold:
  "\<exists>w3. pageLoadedRef w3 = (if pageStart p = - 1 then 0 else pageStart p)
      \<and> loadMoreCalls w3 = loadMoreCalls w
      \<and> pageStartEffect p d w = (if initialLoad p then scrollListener p d w3 else Some (Inr w3))"
proof -
  let ?w1 = "w\<lparr>pageLoadedRef := (if pageStart p = - 1 then 0 else pageStart p)\<rparr>"
  let ?w3 = "attachScrollListener
      (case getParentElement p d (scrollComponentRef ?w1) of
         None \<Rightarrow> ?w1
       | Some parentElement \<Rightarrow>
           if \<not> useWindow p then ?w1\<lparr>scrollContainerRef := Elem parentElement\<rparr> else ?w1)"
  have "pageLoadedRef ?w3 = (if pageStart p = - 1 then 0 else pageStart p)"
    by (simp add: attachScrollListener_def split: option.splits)
  moreover have "loadMoreCalls ?w3 = loadMoreCalls w"
    by (simp add: attachScrollListener_def split: option.splits)
  moreover have "pageStartEffect p d w
      = (if initialLoad p then scrollListener p d ?w3 else Some (Inr ?w3))"
    by (simp add: pageStartEffect_def Let_def)
  ultimately show ?thesis by blast
qed

text \<open>
  Claim C7. Every run of the \<^verbatim>\<open>pageStart\<close> effect, whatever the counter was before, sets
  the page counter to 0 when \<^verbatim>\<open>pageStart\<close> is -1 and to \<^verbatim>\<open>pageStart\<close> otherwise, and only
  then performs the initial trigger check, if there is one. So when the effect returns, the
  counter has that value, or, when the initial check has fired with a \<^verbatim>\<open>loadMore\<close>
  callback, that value plus 1, which is then also the argument of the one call made; with
  \<^verbatim>\<open>initialLoad\<close> false the effect returns and the counter has exactly that value. This
  holds in both variants (in the variant with local variables the initial check also needs
  \<^verbatim>\<open>hasMore\<close>). In particular a change of \<^verbatim>\<open>pageStart\<close> from 0 to -1 resets the counter
  to 0, and a change from -1 to a non-negative value sets it to that value.
\<close>

theorem pageStart_resets_counter:
  "(\<exists>w3. pageLoadedRef w3 = (if pageStart p = - 1 then 0 else pageStart p)
      \<and> loadMoreCalls w3 = loadMoreCalls w
      \<and> pageStartEffect p d w = (if initialLoad p then scrollListener p d w3 else Some (Inr w3)))
   \<and> (pageStartEffect p d w = Some (Inr w') \<longrightarrow>
        (pageLoadedRef w' = (if pageStart p = - 1 then 0 else pageStart p)
           \<and> loadMoreCalls w' = loadMoreCalls w)
        \<or> (initialLoad p \<and> loadMore p
            \<and> pageLoadedRef w' = (if pageStart p = - 1 then 0 else pageStart p) + 1
            \<and> loadMoreCalls w' = loadMoreCalls w
                 @ [(if pageStart p = - 1 then 0 else pageStart p) + 1]))
   \<and> IS_pageStartEffect p d u
        = IS_attachScrollListener p d
            (u\<lparr>pageLoaded := (if pageStart p = - 1 then 0 else pageStart p)\<rparr>)
   \<and> (IS_pageStartEffect p d u = Some (Inr u') \<longrightarrow>
        (pageLoaded u' = (if pageStart p = - 1 then 0 else pageStart p)
           \<and> IS_loadMoreCalls u' = IS_loadMoreCalls u)
        \<or> (initialLoad p \<and> hasMore p \<and> loadMore p
            \<and> pageLoaded u' = (if pageStart p = - 1 then 0 else pageStart p) + 1
            \<and> IS_loadMoreCalls u' = IS_loadMoreCalls u
                 @ [(if pageStart p = - 1 then 0 else pageStart p) + 1]))"
proof (intro conjI impI)
  show "\<exists>w3. pageLoadedRef w3 = (if pageStart p = - 1 then 0 else pageStart p)
      \<and> loadMoreCalls w3 = loadMoreCalls w
      \<and> pageStartEffect p d w = (if initialLoad p then scrollListener p d w3 else Some (Inr w3))"
    by (rule pageStartEffect_unfold)
next
  assume a: "pageStartEffect p d w = Some (Inr w')"
  from pageStartEffect_unfold [of p w d] obtain w3
    where w3: "pageLoadedRef w3 = (if pageStart p = - 1 then 0 else pageStart p)"
      "loadMoreCalls w3 = loadMoreCalls w"
      "pageStartEffect p d w = (if initialLoad p then scrollListener p d w3 else Some (Inr w3))"
    by blast
  show "(pageLoadedRef w' = (if pageStart p = - 1 then 0 else pageStart p)
           \<and> loadMoreCalls w' = loadMoreCalls w)
        \<or> (initialLoad p \<and> loadMore p
            \<and> pageLoadedRef w' = (if pageStart p = - 1 then 0 else pageStart p) + 1
            \<and> loadMoreCalls w' = loadMoreCalls w
                 @ [(if pageStart p = - 1 then 0 else pageStart p) + 1])"
  proof (cases "initialLoad p")
    case True
    with a w3 have "scrollListener p d w3 = Some (Inr w')" by simp
    from scrollListener_counter [OF this] w3(1,2) True show ?thesis by auto
  next
    case False
    with a w3 show ?thesis by auto
  qed
next
  show "IS_pageStartEffect p d u
        = IS_attachScrollListener p d
            (u\<lparr>pageLoaded := (if pageStart p = - 1 then 0 else pageStart p)\<rparr>)"
    by (simp add: IS_pageStartEffect_def)
next
  assume "IS_pageStartEffect p d u = Some (Inr u')"
  then have "IS_attachScrollListener p d
      (u\<lparr>pageLoaded := (if pageStart p = - 1 then 0 else pageStart p)\<rparr>) = Some (Inr u')"
    by (simp add: IS_pageStartEffect_def)
  from IS_attachScrollListener_counter [OF this]
  show "(pageLoaded u' = (if pageStart p = - 1 then 0 else pageStart p)
           \<and> IS_loadMoreCalls u' = IS_loadMoreCalls u)
        \<or> (initialLoad p \<and> hasMore p \<and> loadMore p
            \<and> pageLoaded u' = (if pageStart p = - 1 then 0 else pageStart p) + 1
            \<and> IS_loadMoreCalls u' = IS_loadMoreCalls u
                 @ [(if pageStart p = - 1 then 0 else pageStart p) + 1])"
    by auto
qed

text \<open>
  The claim on the example page: a widget that has loaded five pages is re-initialised with
  \<^verbatim>\<open>pageStart\<close> -1 and no initial load, which sets the counter to 0; it is then
  re-initialised with \<^verbatim>\<open>pageStart\<close> 7 and an initial load that fires, which sets the
  counter to 7 and then calls \<^verbatim>\<open>loadMore(8)\<close>. The same in the variant with local
  variables.
\<close>

theorem pageStart_resets_counter_witness:
  "pageStartEffect (config\<lparr>pageStart := - 1, initialLoad := False\<rparr>) (browser 1000 1000 100)
       (attached\<lparr>pageLoadedRef := 5, loadMoreCalls := [1, 2, 3, 4, 5]\<rparr>)
     = Some (Inr (attached\<lparr>pageLoadedRef := 0, loadMoreCalls := [1, 2, 3, 4, 5]\<rparr>))
   \<and> pageStartEffect (config\<lparr>pageStart := 7\<rparr>) (browser 1000 1000 100)
       (attached\<lparr>pageLoadedRef := 0, loadMoreCalls := [1, 2, 3, 4, 5]\<rparr>)
     = Some (Inr (attached\<lparr>pageLoadedRef := 8, loadMoreCalls := [1, 2, 3, 4, 5, 8],
                           isLoadMoreRef := True\<rparr>))
   \<and> IS_pageStartEffect (config\<lparr>pageStart := - 1, initialLoad := False\<rparr>) (browser 1000 1000 100)
       ((IS_initialWidget (Some 2))\<lparr>pageLoaded := 5, IS_loadMoreCalls := [1, 2, 3, 4, 5]\<rparr>)
     = Some (Inr ((IS_initialWidget (Some 2))\<lparr>pageLoaded := 0,
          IS_loadMoreCalls := [1, 2, 3, 4, 5], IS_listeners := allListeners Window\<rparr>))
   \<and> initialLoad (config\<lparr>pageStart := 7\<rparr>) \<and> loadMore (config\<lparr>pageStart := 7\<rparr>)
   \<and> pageLoadedRef (attached\<lparr>pageLoadedRef := 8, loadMoreCalls := [1, 2, 3, 4, 5, 8],
                              isLoadMoreRef := True\<rparr>) = 7 + 1"
proof -
  let ?d = "browser 1000 1000 100"
  let ?p1 = "config\<lparr>pageStart := - 1, initialLoad := False\<rparr>"
  let ?p2 = "config\<lparr>pageStart := 7\<rparr>"
  let ?w = "attached\<lparr>pageLoadedRef := 5, loadMoreCalls := [1, 2, 3, 4, 5]\<rparr>"
  let ?w1 = "attached\<lparr>pageLoadedRef := 0, loadMoreCalls := [1, 2, 3, 4, 5]\<rparr>"
  let ?w2 = "attached\<lparr>pageLoadedRef := 8, loadMoreCalls := [1, 2, 3, 4, 5, 8],
                       isLoadMoreRef := True\<rparr>"
  let ?u = "(IS_initialWidget (Some 2))\<lparr>pageLoaded := 5, IS_loadMoreCalls := [1, 2, 3, 4, 5]\<rparr>"
  let ?u1 = "(IS_initialWidget (Some 2))\<lparr>pageLoaded := 0,
          IS_loadMoreCalls := [1, 2, 3, 4, 5], IS_listeners := allListeners Window\<rparr>"
  have par: "\<And>p. getScrollParent p = None \<Longrightarrow> getParentElement p ?d (Some 2) = Some 3"
    by (simp add: getParentElement_def browser_simps page_simps)
  have h1: "pageStartEffect ?p1 ?d ?w = Some (Inr ?w1)"
    by (simp add: pageStartEffect_def attachScrollListener_def par config_simps attached_simps)
  have h2: "pageStartEffect ?p2 ?d ?w1 = Some (Inr ?w2)"
    by (simp add: pageStartEffect_def attachScrollListener_def par config_simps attached_simps
          scrollListener_def window_offset scrollListener_trigger_def browser_simps visible_2)
  have h3: "IS_pageStartEffect ?p1 ?d ?u = Some (Inr ?u1)"
    by (simp add: IS_pageStartEffect_def IS_attachScrollListener_def par config_simps
        IS_initialWidget_def IS_scrollEl_def)
  from pageStart_resets_counter [of ?p1 ?w ?d ?w1 ?u ?u1]
    pageStart_resets_counter [of ?p2 ?w1 ?d ?w2 ?u ?u1] h1 h2 h3
  show ?thesis by (simp add: config_simps)
qed

subsection \<open>The wheel listener\<close>

text \<open>
  Claim C8, as amended. The wheel listener calls \<^verbatim>\<open>preventDefault\<close>, once, exactly when
  passive listeners are unsupported and the event's \<^verbatim>\<open>deltaY\<close> is exactly 1; it does
  nothing else to the event, and whenever passive listeners are supported it performs no
  action for every event.
\<close>

theorem mousewheelListener_preventDefault:
  "preventDefaultCalls (mousewheelListener d e)
     = preventDefaultCalls e + (if \<not> passiveSupported d \<and> deltaY e = 1 then 1 else 0)
   \<and> deltaY (mousewheelListener d e) = deltaY e
   \<and> (passiveSupported d \<longrightarrow> mousewheelListener d e = e)"
  by (simp add: mousewheelListener_def)

theorem mousewheelListener_preventDefault_witness:
  "passiveSupported ((browser 1000 1000 0)\<lparr>passiveSupported := True\<rparr>)
   \<and> mousewheelListener ((browser 1000 1000 0)\<lparr>passiveSupported := True\<rparr>)
        \<lparr>deltaY = 1, preventDefaultCalls = 0\<rparr> = \<lparr>deltaY = 1, preventDefaultCalls = 0\<rparr>
   \<and> preventDefaultCalls (mousewheelListener (browser 1000 1000 0)
        \<lparr>deltaY = 1, preventDefaultCalls = 0\<rparr>) = 1"
  using mousewheelListener_preventDefault [of "(browser 1000 1000 0)\<lparr>passiveSupported := True\<rparr>"
      "\<lparr>deltaY = 1, preventDefaultCalls = 0\<rparr>"]
    mousewheelListener_preventDefault [of "browser 1000 1000 0"
      "\<lparr>deltaY = 1, preventDefaultCalls = 0\<rparr>"]
  by (simp add: browser_simps)

text \<open>
  Claim C8 as stated fails for a forward wheel movement other than 1: with passive
  listeners unsupported and \<^verbatim>\<open>deltaY\<close> = 100 (a scroll downwards), \<^verbatim>\<open>preventDefault\<close> is
  not called.
\<close>

theorem mousewheelListener_preventDefault_counterexample:
  "\<not> passiveSupported (browser 1000 1000 0)
   \<and> 0 < deltaY \<lparr>deltaY = 100, preventDefaultCalls = 0\<rparr>
   \<and> mousewheelListener (browser 1000 1000 0) \<lparr>deltaY = 100, preventDefaultCalls = 0\<rparr>
       = \<lparr>deltaY = 100, preventDefaultCalls = 0\<rparr>"
  by (simp add: mousewheelListener_def browser_simps)


subsection \<open>Mounting without more items\<close>

lemma childrenArray_hasMore_false: "\<not> hasMore p \<Longrightarrow> childrenArray p = [children p]"
  by (simp add: childrenArray_def)

lemma IS_attachScrollListener_hasMore_false:
  "\<not> hasMore p \<Longrightarrow> IS_attachScrollListener p d u = Some (Inr u)"
  by (simp add: IS_attachScrollListener_def split: option.splits)

lemma IS_mount_hasMore_false:
  "\<not> hasMore p \<Longrightarrow>
     IS_mount p d u = Some (Inr (u\<lparr>pageLoaded := (if pageStart p = - 1 then 0 else pageStart p)\<rparr>))"
  by (simp add: IS_mount_def IS_pageStartEffect_def IS_renderEffect_def
      IS_attachScrollListener_hasMore_false)

text \<open>
  Claim C2 at a configuration with \<^verbatim>\<open>hasMore\<close> false, in the variant with refs. The
  rendered children are the content alone, without the loader; but mounting registers the
  wheel, scroll and resize listeners on the window all the same, and the initial check
  there calls \<^verbatim>\<open>loadMore(1)\<close>. (The variant with local variables returns from
  \<^verbatim>\<open>attachScrollListener\<close> before registering anything, see \<open>IS_mount_hasMore_false\<close>.)
\<close>

theorem mount_hasMore_false_attaches:
  "\<not> hasMore (config\<lparr>hasMore := False\<rparr>)
   \<and> childrenArray (config\<lparr>hasMore := False\<rparr>) = [()]
   \<and> listeners (initialWidget (Some 2)) = {}
   \<and> mount (config\<lparr>hasMore := False\<rparr>) (browser 1000 1000 100) (initialWidget (Some 2))
       = Some (Inr ((initialWidget (Some 2))
            \<lparr>listeners := {(Window, Mousewheel), (Window, Scroll), (Window, Resize)},
             pageLoadedRef := 1, loadMoreCalls := [1], isLoadMoreRef := True\<rparr>))
   \<and> IS_mount (config\<lparr>hasMore := False\<rparr>) (browser 1000 1000 100) (IS_initialWidget (Some 2))
       = Some (Inr (IS_initialWidget (Some 2)))"
proof -
  let ?p = "config\<lparr>hasMore := False\<rparr>" and ?d = "browser 1000 1000 100"
  let ?w3 = "(initialWidget (Some 2))
      \<lparr>listeners := {(Window, Mousewheel), (Window, Scroll), (Window, Resize)}\<rparr>"
  let ?w4 = "(initialWidget (Some 2))
      \<lparr>listeners := {(Window, Mousewheel), (Window, Scroll), (Window, Resize)},
       pageLoadedRef := 1, loadMoreCalls := [1], isLoadMoreRef := True\<rparr>"
  have p: "\<not> hasMore ?p" "useWindow ?p" "\<not> isReverse ?p" "initialLoad ?p" "loadMore ?p"
    "threshold ?p = 250" "pageStart ?p = 0" "children ?p = ()"
    by (simp_all add: config_simps)
  have w3: "scrollComponentRef ?w3 = Some 2" "scrollContainerRef ?w3 = Window"
    by (simp_all add: initialWidget_def)
  have s: "scrollListener ?p ?d ?w3 = Some (Inr ?w4)"
    by (simp add: scrollListener_def window_offset [OF w3 p(2,3)] w3 p
        scrollListener_trigger_def browser_simps visible_2)
       (simp add: initialWidget_def)
  have "pageStartEffect ?p ?d (initialWidget (Some 2)) = scrollListener ?p ?d ?w3"
    by (simp add: pageStartEffect_def Let_def getParentElement_def attachScrollListener_def
        allListeners_def p initialWidget_def split: option.splits)
  with s have "mount ?p ?d (initialWidget (Some 2)) = Some (Inr ?w4)"
    by (simp add: mount_def renderEffect_def p)
  moreover have "IS_mount ?p ?d (IS_initialWidget (Some 2)) = Some (Inr (IS_initialWidget (Some 2)))"
    by (simp add: IS_mount_hasMore_false p) (simp add: IS_initialWidget_def)
  moreover have "childrenArray ?p = [()]"
    by (simp add: childrenArray_hasMore_false p)
  moreover have "listeners (initialWidget (Some 2)) = {}"
    by (simp add: initialWidget_def)
  ultimately show ?thesis using p(1) by simp
qed

end
